theory Spec2Isabelle
  imports
    Complex_Main
    "HOL-Library.Sublist"
    "HOL-Library.Char_ord"
    "HOL-Library.List_Lexorder"
    "HOL-Library.Multiset"
    "HOL-Library.Word"
begin

section \<open>Strings\<close>

text \<open>
  A \<^verbatim>\<open>std::string\<close> is a list of bytes. \<^verbatim>\<open>s.find(pat)\<close> returns the first
  position at which \<^verbatim>\<open>pat\<close> occurs in \<^verbatim>\<open>s\<close>, or \<^verbatim>\<open>npos\<close>, here \<open>None\<close>.
  The order on strings (\<^verbatim>\<open>operator<\<close>) is the lexicographic order on bytes, which
  is the order of \<open>string\<close> with the imported character and list orders.
\<close>

primrec str_find :: "string \<Rightarrow> string \<Rightarrow> nat option" where
  "str_find [] pat = (if pat = [] then Some 0 else None)"
| "str_find (c # cs) pat =
     (if prefix pat (c # cs) then Some 0 else map_option Suc (str_find cs pat))"

definition str_contains :: "string \<Rightarrow> string \<Rightarrow> bool" where
  "str_contains s pat = (str_find s pat \<noteq> None)"

section \<open>The two regular expressions of the rewriter\<close>

text \<open>
  The rewriter uses \<^verbatim>\<open>std::regex_search\<close> with two ECMAScript patterns. Both are
  sequences of atoms, an atom being a character class (a literal character, \<^verbatim>\<open>\w\<close> or
  \<^verbatim>\<open>\s\<close>) with a quantifier (exactly one, \<^verbatim>\<open>+\<close> or \<^verbatim>\<open>*\<close>), and every capture
  group encloses exactly one atom. The matcher below is the backtracking matcher for
  such sequences: a quantified atom first takes the longest run it can and gives
  characters back one at a time when the rest of the pattern fails; the search tries
  the start positions from left to right. The classes are those of the "C" locale.
\<close>

datatype cclass = Lit char | WordC | SpaceC

datatype quant = One | Plus | Star

type_synonym atom = "cclass \<times> quant \<times> bool"

definition is_word_char :: "char \<Rightarrow> bool" where
  "is_word_char c =
     (let n = (of_char c :: nat)
      in (48 \<le> n \<and> n \<le> 57) \<or> (65 \<le> n \<and> n \<le> 90) \<or> (97 \<le> n \<and> n \<le> 122) \<or> n = 95)"

definition is_space_char :: "char \<Rightarrow> bool" where
  "is_space_char c = (let n = (of_char c :: nat) in n = 32 \<or> (9 \<le> n \<and> n \<le> 13))"

fun in_class :: "cclass \<Rightarrow> char \<Rightarrow> bool" where
  "in_class (Lit d) c = (c = d)"
| "in_class WordC c = is_word_char c"
| "in_class SpaceC c = is_space_char c"

fun candidate_lengths :: "quant \<Rightarrow> nat \<Rightarrow> nat list" where
  "candidate_lengths One n = (if 1 \<le> n then [1] else [])"
| "candidate_lengths Plus n = rev [1..<Suc n]"
| "candidate_lengths Star n = rev [0..<Suc n]"

fun first_some :: "'a option list \<Rightarrow> 'a option" where
  "first_some [] = None"
| "first_some (None # rs) = first_some rs"
| "first_some (Some r # rs) = Some r"

fun match_atoms :: "atom list \<Rightarrow> string \<Rightarrow> string list option" where
  "match_atoms [] s = Some []"
| "match_atoms ((cl, q, cap) # rest) s =
     first_some
       (map (\<lambda>k. map_option (\<lambda>caps. if cap then take k s # caps else caps)
                    (match_atoms rest (drop k s)))
            (candidate_lengths q (length (takeWhile (in_class cl) s))))"

fun regex_search :: "atom list \<Rightarrow> string \<Rightarrow> string list option" where
  "regex_search p [] = match_atoms p []"
| "regex_search p (c # cs) =
     (case match_atoms p (c # cs) of
        Some caps \<Rightarrow> Some caps
      | None \<Rightarrow> regex_search p cs)"

definition lits :: "string \<Rightarrow> atom list" where
  "lits s = map (\<lambda>c. (Lit c, One, False)) s"

definition word_group :: atom where
  "word_group = (WordC, Plus, True)"

definition spaces1 :: atom where
  "spaces1 = (SpaceC, Plus, False)"

definition spaces0 :: atom where
  "spaces0 = (SpaceC, Star, False)"

text \<open>\<^verbatim>\<open>(\w+)\.(\w+)\s*=\s*(\w+)\.(\w+)\<close>\<close>

definition table_pattern :: "atom list" where
  "table_pattern =
     [word_group] @ lits ''.'' @ [word_group, spaces0] @ lits ''='' @
     [spaces0, word_group] @ lits ''.'' @ [word_group]"

text \<open>\<^verbatim>\<open>\(SELECT\s+(\w+)\s+FROM\s+(\w+)\s+(\w+)\s+WHERE\s+(\w+)\.(\w+)\s*=\s*(\w+)\.(\w+)\)\<close>\<close>

definition generic_pattern :: "atom list" where
  "generic_pattern =
     lits ''(SELECT'' @ [spaces1, word_group, spaces1] @ lits ''FROM'' @
     [spaces1, word_group, spaces1, word_group, spaces1] @ lits ''WHERE'' @
     [spaces1, word_group] @ lits ''.'' @ [word_group, spaces0] @ lits ''='' @
     [spaces0, word_group] @ lits ''.'' @ [word_group] @ lits '')''"

section \<open>The parsed query (ast.h)\<close>

datatype JoinType =
  INNER | LEFT | RIGHT | FULL | NATURAL | LEFT_ANTI | RIGHT_ANTI | FULL_OUTER_ANTI

text \<open>
  The field \<^verbatim>\<open>alias\<close> of \<^verbatim>\<open>TableRef\<close> is \<open>table_alias\<close> and that of
  \<^verbatim>\<open>SelectItem\<close> is \<open>item_alias\<close>; the field \<^verbatim>\<open>expr\<close> of \<^verbatim>\<open>OrderItem\<close> is
  \<open>order_expr\<close>; the field \<^verbatim>\<open>distinct\<close> of \<^verbatim>\<open>SelectQuery\<close> is \<open>distinct_q\<close>.
  The entries of \<^verbatim>\<open>subqueries\<close> are pointers, kept as addresses.
\<close>

record TableRef =
  name :: string
  table_alias :: string
  pushedFilters :: "string list"

record JoinClause =
  type :: JoinType
  table :: TableRef
  on_conds :: "string list"

record OrderItem =
  order_expr :: string
  asc :: bool

record SelectItem =
  expr :: string
  item_alias :: string

record SelectQuery =
  distinct_q :: bool
  select_items :: "SelectItem list"
  from_table :: TableRef
  joins :: "JoinClause list"
  where_conditions :: "string list"
  group_by :: "string list"
  having_conditions :: "string list"
  order_by :: "OrderItem list"
  limit :: int
  subqueries :: "nat list"

section \<open>The query rewriter (query\_rewriter.cpp)\<close>

text \<open>\<^verbatim>\<open>t.alias.empty() ? t.name : t.alias\<close>\<close>

definition alias_or_name :: "TableRef \<Rightarrow> string" where
  "alias_or_name t = (if table_alias t = [] then name t else table_alias t)"

text \<open>
  \<^verbatim>\<open>cond.find(alias + ".") != npos || cond.find(alias + " ") != npos\<close>, the test of
  convertCommaJoins for a condition that involves a table.
\<close>

definition involves :: "string \<Rightarrow> string \<Rightarrow> bool" where
  "involves cond a = (str_contains cond (a @ ''.'') \<or> str_contains cond (a @ '' ''))"

definition is_sentinel :: "JoinClause \<Rightarrow> bool" where
  "is_sentinel j = (on_conds j \<noteq> [] \<and> hd (on_conds j) = ''1=1'')"

text \<open>
  The conditions collected for one comma join: \<open>prev\<close> are the aliases of the joins
  before it, \<open>main_alias\<close> that of the FROM table, \<open>join_alias\<close> its own.
\<close>

definition comma_join_conditions ::
  "string \<Rightarrow> string list \<Rightarrow> string \<Rightarrow> string list \<Rightarrow> string list" where
  "comma_join_conditions main_alias prev join_alias conds =
     filter (\<lambda>cond. involves cond join_alias \<and>
                     list_ex (\<lambda>a. a \<noteq> join_alias \<and> involves cond a)
                       ([main_alias, join_alias] @ prev))
            conds"

text \<open>
  The first loop of convertCommaJoins. \<open>done\<close> are the joins already visited (with
  their new ON conditions), \<open>made\<close> is \<^verbatim>\<open>conversions_made\<close>.
\<close>

fun convert_loop ::
  "string \<Rightarrow> string list \<Rightarrow> JoinClause list \<Rightarrow> JoinClause list \<Rightarrow> bool
     \<Rightarrow> JoinClause list \<times> bool" where
  "convert_loop main_alias conds done [] made = (done, made)"
| "convert_loop main_alias conds done (j # js) made =
     (if is_sentinel j then
        (let join_conditions =
               comma_join_conditions main_alias (map (alias_or_name \<circ> table) done)
                 (alias_or_name (table j)) conds
         in if join_conditions \<noteq> []
            then convert_loop main_alias conds
                   (done @ [j\<lparr>on_conds := join_conditions\<rparr>]) js True
            else convert_loop main_alias conds (done @ [j]) js made)
      else convert_loop main_alias conds (done @ [j]) js made)"

text \<open>A WHERE condition is removed when it equals an ON condition of some join.\<close>

definition is_join_condition :: "JoinClause list \<Rightarrow> string \<Rightarrow> bool" where
  "is_join_condition js cond = list_ex (\<lambda>j. cond \<in> set (on_conds j)) js"

definition remaining_conditions :: "JoinClause list \<Rightarrow> string list \<Rightarrow> string list" where
  "remaining_conditions js conds = filter (\<lambda>cond. \<not> is_join_condition js cond) conds"

text \<open>
  reconstructCommaJoins. The aliases are collected in a \<^verbatim>\<open>std::set\<close>, a sorted list
  without duplicates, and visited in that order.
\<close>

definition collect_aliases :: "string list \<Rightarrow> string list" where
  "collect_aliases conds =
     fold (\<lambda>cond S.
             case regex_search table_pattern cond of
               None \<Rightarrow> S
             | Some m \<Rightarrow> insort_insert (m ! 2) (insort_insert (m ! 0) S))
          conds []"

definition alias_table_name :: "string \<Rightarrow> string" where
  "alias_table_name a =
     (if a = ''ew'' then ''electionwinner''
      else if a = ''c'' then ''candidate''
      else if a = ''e'' then ''election''
      else if a = ''p'' then ''party''
      else if a = ''d'' then ''district''
      else if a = ''po'' then ''post''
      else if a = ''v'' then ''voter''
      else if a = ''s'' then ''state''
      else a)"

definition reconstruct_conditions :: "string \<Rightarrow> string \<Rightarrow> string list \<Rightarrow> string list" where
  "reconstruct_conditions main_alias a conds =
     filter (\<lambda>cond. str_contains cond (a @ ''.'') \<and>
                     (str_contains cond (main_alias @ ''.'') \<or> str_contains cond ''=''))
            conds"

fun reconstruct_loop :: "string \<Rightarrow> string list \<Rightarrow> string list \<Rightarrow> JoinClause list" where
  "reconstruct_loop main_alias conds [] = []"
| "reconstruct_loop main_alias conds (a # as) =
     (let join_conditions = reconstruct_conditions main_alias a conds;
          new_join = \<lparr>type = INNER,
                      table = \<lparr>name = alias_table_name a, table_alias = a,
                                pushedFilters = []\<rparr>,
                      on_conds = join_conditions\<rparr>
      in if join_conditions \<noteq> []
         then new_join # reconstruct_loop main_alias conds as
         else reconstruct_loop main_alias conds as)"

definition reconstructCommaJoins :: "SelectQuery \<Rightarrow> SelectQuery" where
  "reconstructCommaJoins query =
     (let main_alias = alias_or_name (from_table query);
          table_aliases = removeAll main_alias (collect_aliases (where_conditions query));
          reconstructed_joins =
            reconstruct_loop main_alias (where_conditions query) table_aliases
      in if reconstructed_joins \<noteq> []
         then query\<lparr>joins := reconstructed_joins,
                    where_conditions :=
                      remaining_conditions reconstructed_joins (where_conditions query)\<rparr>
         else query)"

definition convertCommaJoins :: "SelectQuery \<Rightarrow> SelectQuery" where
  "convertCommaJoins query =
     (let main_alias = alias_or_name (from_table query);
          (js, conversions_made) =
            convert_loop main_alias (where_conditions query) [] (joins query) False;
          query1 = query\<lparr>joins := js,
                         where_conditions :=
                           remaining_conditions js (where_conditions query)\<rparr>
      in if \<not> conversions_made \<and> joins query1 = [] \<and> where_conditions query1 \<noteq> []
         then reconstructCommaJoins query1
         else query1)"

text \<open>
  convertSubqueriesToJoins. \<open>convert_item\<close> is the body of the loop for one select
  item: the replacement item and the LEFT join to add, or \<open>None\<close> when no pattern
  matched and the item is kept.
\<close>

definition left_join :: "string \<Rightarrow> string \<Rightarrow> string \<Rightarrow> JoinClause" where
  "left_join tname talias cond =
     \<lparr>type = LEFT,
      table = \<lparr>name = tname, table_alias = talias, pushedFilters = []\<rparr>,
      on_conds = [cond]\<rparr>"

definition convert_item :: "SelectItem \<Rightarrow> (SelectItem \<times> JoinClause) option" where
  "convert_item item =
     (if str_contains (expr item) ''(SELECT'' \<and> str_contains (expr item) ''FROM'' then
        if str_contains (expr item) ''PartyName'' \<and> str_contains (expr item) ''party'' \<and>
           str_contains (expr item) ''PartyID''
        then Some (\<lparr>expr = ''p.PartyName'', item_alias = item_alias item\<rparr>,
                   left_join ''party'' ''p'' ''c.PartyID = p.PartyID'')
        else if str_contains (expr item) ''DistrictName'' \<and>
                str_contains (expr item) ''district'' \<and>
                str_contains (expr item) ''DistrictID''
        then Some (\<lparr>expr = ''d.DistrictName'', item_alias = item_alias item\<rparr>,
                   left_join ''district'' ''d'' ''c.DistrictID = d.DistrictID'')
        else if str_contains (expr item) ''PostName'' \<and> str_contains (expr item) ''post'' \<and>
                str_contains (expr item) ''PostID''
        then Some (\<lparr>expr = ''po.PostName'', item_alias = item_alias item\<rparr>,
                   left_join ''post'' ''po'' ''e.PostID = po.PostID'')
        else (case regex_search generic_pattern (expr item) of
                None \<Rightarrow> None
              | Some m \<Rightarrow>
                  Some (\<lparr>expr = (m ! 2) @ ''.'' @ (m ! 0), item_alias = item_alias item\<rparr>,
                        left_join (m ! 1) (m ! 2)
                          ((m ! 5) @ ''.'' @ (m ! 6) @ '' = '' @ (m ! 3) @ ''.'' @ (m ! 4))))
      else None)"

fun subquery_loop :: "SelectItem list \<Rightarrow> SelectItem list \<times> JoinClause list \<times> bool" where
  "subquery_loop [] = ([], [], False)"
| "subquery_loop (item # items) =
     (case subquery_loop items of
        (new_select_items, additional_joins, conversions_made) \<Rightarrow>
          (case convert_item item of
             Some (new_item, new_join) \<Rightarrow>
               (new_item # new_select_items, new_join # additional_joins, True)
           | None \<Rightarrow> (item # new_select_items, additional_joins, conversions_made)))"

definition convertSubqueriesToJoins :: "SelectQuery \<Rightarrow> SelectQuery" where
  "convertSubqueriesToJoins query =
     (case subquery_loop (select_items query) of
        (new_select_items, additional_joins, conversions_made) \<Rightarrow>
          if conversions_made
          then query\<lparr>select_items := new_select_items,
                     joins := joins query @ additional_joins\<rparr>
          else query)"

definition pushdownPredicates :: "SelectQuery \<Rightarrow> SelectQuery" where
  "pushdownPredicates query =
     (if joins query = []
      then query\<lparr>from_table := (from_table query)\<lparr>pushedFilters := where_conditions query\<rparr>,
                 where_conditions := []\<rparr>
      else query)"

definition pushdownProjections :: "SelectQuery \<Rightarrow> SelectQuery" where
  "pushdownProjections query = query"

text \<open>
  reorderJoins sorts with \<^verbatim>\<open>std::sort\<close> and the comparison of the table names.
  \<^verbatim>\<open>std::sort\<close> is not stable: the language fixes that its result is a permutation
  of the range in non-descending order, and leaves the order of joins with equal names to
  the library. The library's sort is therefore the parameter \<open>srt\<close> of reorderJoins
  and of rewrite, and \<open>std_sort\<close> is what the language says of it. The insertion sort
  is one such function (it is what libstdc++ runs on a range of at most 16 elements).
\<close>

definition std_sort :: "(JoinClause list \<Rightarrow> JoinClause list) \<Rightarrow> bool" where
  "std_sort srt =
     (\<forall>js. mset (srt js) = mset js \<and> sorted (map (\<lambda>j. name (table j)) (srt js)))"

definition insertion_sort :: "JoinClause list \<Rightarrow> JoinClause list" where
  "insertion_sort js = sort_key (\<lambda>j. name (table j)) js"

definition reorderJoins ::
  "(JoinClause list \<Rightarrow> JoinClause list) \<Rightarrow> SelectQuery \<Rightarrow> SelectQuery" where
  "reorderJoins srt query =
     (if length (joins query) > 1
      then query\<lparr>joins := srt (joins query)\<rparr>
      else query)"

definition rewrite ::
  "(JoinClause list \<Rightarrow> JoinClause list) \<Rightarrow> SelectQuery \<Rightarrow> SelectQuery" where
  "rewrite srt query =
     reorderJoins srt (pushdownProjections (pushdownPredicates
       (convertSubqueriesToJoins (convertCommaJoins query))))"

text \<open>foldConstants and isPushablePredicate are defined by the rewriter and called nowhere.\<close>

definition foldConstants :: "SelectQuery \<Rightarrow> SelectQuery" where
  "foldConstants query =
     query\<lparr>where_conditions :=
              map (\<lambda>cond. if str_contains cond ''1=1'' then ''TRUE'' else cond)
                  (where_conditions query)\<rparr>"

definition isPushablePredicate :: "string \<Rightarrow> string \<Rightarrow> bool" where
  "isPushablePredicate pred a = str_contains pred (a @ ''.'')"

section \<open>The AST-to-SQL serializer (optimizer.cpp)\<close>

text \<open>The \<^verbatim>\<open>switch\<close> has no case for \<^verbatim>\<open>JoinType::RIGHT\<close>, which takes the default.\<close>

fun join_type_to_string :: "JoinType \<Rightarrow> string" where
  "join_type_to_string INNER = ''INNER''"
| "join_type_to_string LEFT = ''LEFT''"
| "join_type_to_string FULL = ''FULL''"
| "join_type_to_string NATURAL = ''NATURAL''"
| "join_type_to_string LEFT_ANTI = ''LEFT ANTI''"
| "join_type_to_string RIGHT_ANTI = ''RIGHT ANTI''"
| "join_type_to_string FULL_OUTER_ANTI = ''FULL OUTER ANTI''"
| "join_type_to_string _ = ''INNER''"

text \<open>The items of a list written with a separator between them.\<close>

fun join_with :: "string \<Rightarrow> string list \<Rightarrow> string" where
  "join_with sep [] = []"
| "join_with sep [x] = x"
| "join_with sep (x # y # ys) = x @ sep @ join_with sep (y # ys)"

text \<open>The decimal digits of a number, as \<^verbatim>\<open>operator<<\<close> writes a non-negative int.\<close>

fun string_of_nat :: "nat \<Rightarrow> string" where
  "string_of_nat n =
     (if n < 10 then [char_of (48 + n)]
      else string_of_nat (n div 10) @ [char_of (48 + n mod 10)])"

definition select_item_sql :: "SelectItem \<Rightarrow> string" where
  "select_item_sql i = expr i @ (if item_alias i \<noteq> [] then '' AS '' @ item_alias i else [])"

definition table_sql :: "TableRef \<Rightarrow> string" where
  "table_sql t = name t @ (if table_alias t \<noteq> [] then '' AS '' @ table_alias t else [])"

definition join_sql :: "JoinClause \<Rightarrow> string" where
  "join_sql j =
     '' '' @ join_type_to_string (type j) @ '' JOIN '' @ table_sql (table j) @
     (if on_conds j \<noteq> [] then '' ON '' @ join_with '' AND '' (on_conds j) else [])"

definition order_item_sql :: "OrderItem \<Rightarrow> string" where
  "order_item_sql i = order_expr i @ (if asc i then [] else '' DESC'')"

definition selectQueryToSQL :: "SelectQuery \<Rightarrow> string" where
  "selectQueryToSQL sq =
     (let filters = pushedFilters (from_table sq) @ where_conditions sq
      in ''SELECT '' @
         (if select_items sq \<noteq> [] then join_with '', '' (map select_item_sql (select_items sq))
          else ''*'') @
         '' FROM '' @ table_sql (from_table sq) @
         concat (map join_sql (joins sq)) @
         (if filters \<noteq> [] then '' WHERE '' @ join_with '' AND '' filters else []) @
         (if group_by sq \<noteq> [] then '' GROUP BY '' @ join_with '', '' (group_by sq) else []) @
         (if having_conditions sq \<noteq> []
          then '' HAVING '' @ join_with '' AND '' (having_conditions sq) else []) @
         (if order_by sq \<noteq> []
          then '' ORDER BY '' @ join_with '', '' (map order_item_sql (order_by sq)) else []) @
         (if limit sq \<ge> 0 then '' LIMIT '' @ string_of_nat (nat (limit sq)) else []))"

section \<open>The statistics catalog (statistics\_manager.h, statistics\_manager.cpp)\<close>

text \<open>
  A \<^verbatim>\<open>size_t\<close> is a 64-bit word. A \<^verbatim>\<open>double\<close> is kept as a real number: the
  functions below only store, return and compare such values for equality and do no
  arithmetic on them. A \<^verbatim>\<open>std::map\<close> is the list of its entries in the order of
  iteration (increasing keys, each key once); \<^verbatim>\<open>find\<close> is \<open>map_of\<close>.
\<close>

record ColumnStats =
  column_name :: string
  distinct_values :: "64 word"
  min_value :: string
  max_value :: string
  selectivity :: real
  histogram :: "(string \<times> real) list"

record IndexInfo =
  index_name :: string
  columns :: "string list"
  is_unique :: bool
  cardinality :: "64 word"

record TableStatistics =
  table_name :: string
  row_count :: "64 word"
  page_count :: "64 word"
  column_stats :: "(string \<times> ColumnStats) list"
  available_indexes :: "IndexInfo list"

type_synonym StatisticsManager = "(string \<times> TableStatistics) list"

text \<open>\<^verbatim>\<open>std::tolower\<close> on an unsigned char, in the "C" locale.\<close>

definition tolower_char :: "char \<Rightarrow> char" where
  "tolower_char c =
     (let n = (of_char c :: nat) in if 65 \<le> n \<and> n \<le> 90 then char_of (n + 32) else c)"

definition to_lower :: "string \<Rightarrow> string" where
  "to_lower s = map tolower_char s"

definition getTableStats :: "StatisticsManager \<Rightarrow> string \<Rightarrow> TableStatistics option" where
  "getTableStats stats tname = map_of stats tname"

definition getTableStatsCI :: "StatisticsManager \<Rightarrow> string \<Rightarrow> TableStatistics option" where
  "getTableStatsCI stats tname =
     (case map_of stats tname of
        Some ts \<Rightarrow> Some ts
      | None \<Rightarrow> map_option snd (find (\<lambda>kv. to_lower (fst kv) = to_lower tname) stats))"

text \<open>The first bucket of the histogram with the given value, as the loop returns it.\<close>

definition histogram_lookup :: "(string \<times> real) list \<Rightarrow> string \<Rightarrow> real option" where
  "histogram_lookup h v = map_option snd (find (\<lambda>bucket. fst bucket = v) h)"

definition estimateSelectivity ::
  "StatisticsManager \<Rightarrow> string \<Rightarrow> string \<Rightarrow> string \<Rightarrow> string \<Rightarrow> real" where
  "estimateSelectivity stats tname column op v =
     (case getTableStats stats tname of
        None \<Rightarrow> 0.1
      | Some ts \<Rightarrow>
          (case map_of (column_stats ts) column of
             None \<Rightarrow> 0.1
           | Some cs \<Rightarrow>
               (case histogram_lookup (histogram cs) v of
                  Some freq \<Rightarrow> freq
                | None \<Rightarrow>
                    if op = ''='' then selectivity cs
                    else if op = ''>'' \<or> op = ''<'' \<or> op = ''>='' \<or> op = ''<='' then 0.3
                    else if op = ''LIKE'' then 0.1
                    else 0.1)))"

section \<open>The semantic validator (semantic.cpp)\<close>

text \<open>
  semantic\_validate returns a flag and writes a message to \<^verbatim>\<open>err_out\<close>; the result
  here is the pair of the flag and the final content of \<^verbatim>\<open>err_out\<close>, whose content
  at the call is the argument \<open>err_in\<close>. The \<^verbatim>\<open>unordered_map\<close> from aliases to
  tables is an association list with one entry for each key.
\<close>

definition apostrophe :: string where
  "apostrophe = [CHR 0x27]"

definition isalnum_char :: "char \<Rightarrow> bool" where
  "isalnum_char c =
     (let n = (of_char c :: nat)
      in (48 \<le> n \<and> n \<le> 57) \<or> (65 \<le> n \<and> n \<le> 90) \<or> (97 \<le> n \<and> n \<le> 122))"

definition is_ident_char :: "char \<Rightarrow> bool" where
  "is_ident_char c = (isalnum_char c \<or> c = CHR ''_'')"

definition has_column_ci :: "TableStatistics option \<Rightarrow> string \<Rightarrow> bool" where
  "has_column_ci ts col =
     (case ts of
        None \<Rightarrow> False
      | Some t \<Rightarrow> list_ex (\<lambda>kv. to_lower (fst kv) = to_lower col) (column_stats t))"

definition set_alias :: "(string \<times> string) list \<Rightarrow> string \<Rightarrow> string \<Rightarrow> (string \<times> string) list" where
  "set_alias m k v = (if k \<in> set (map fst m) then map (\<lambda>kv. if fst kv = k then (k, v) else kv) m
                      else m @ [(k, v)])"

text \<open>The loop over the joins: the first join whose table is unknown ends the validation.\<close>

fun resolve_joins ::
  "StatisticsManager \<Rightarrow> JoinClause list \<Rightarrow> (string \<times> string) list
     \<Rightarrow> string + (string \<times> string) list" where
  "resolve_joins stats [] aliasToTable = Inr aliasToTable"
| "resolve_joins stats (j # js) aliasToTable =
     (case getTableStatsCI stats (name (table j)) of
        None \<Rightarrow> Inl (''Unknown table '' @ apostrophe @ name (table j) @ apostrophe)
      | Some ts \<Rightarrow>
          (let resolved = table_name ts;
               a = (if table_alias (table j) = [] then resolved else table_alias (table j))
           in resolve_joins stats js (set_alias aliasToTable (to_lower a) resolved)))"

definition findColumn ::
  "StatisticsManager \<Rightarrow> (string \<times> string) list \<Rightarrow> string \<Rightarrow> bool \<times> string" where
  "findColumn stats aliasToTable ident =
     (case str_find ident ''.'' of
        Some p \<Rightarrow>
          (let a = take p ident; c = drop (p + 1) ident; a_l = to_lower a
           in case map_of aliasToTable a_l of
                None \<Rightarrow> (False, ''Unknown table/alias '' @ apostrophe @ a @ apostrophe)
              | Some t \<Rightarrow>
                  if getTableStats stats t = None \<or> \<not> has_column_ci (getTableStats stats t) c
                  then (False, ''Unknown column '' @ apostrophe @ c @ apostrophe @
                               '' in table '' @ apostrophe @ t @ apostrophe)
                  else (True, []))
      | None \<Rightarrow>
          (let found = length (filter (\<lambda>kv. has_column_ci (getTableStats stats (snd kv)) ident)
                                      aliasToTable)
           in if found = 0
              then (True, ''Warning: Column '' @ apostrophe @ ident @ apostrophe @
                          '' not found, proceeding anyway'')
              else if found > 1
              then (False, ''Ambiguous column '' @ apostrophe @ ident @ apostrophe @
                           '', specify table/alias'')
              else (True, [])))"

text \<open>The column checked for a select item: the text before \<^verbatim>\<open>" as "\<close> or \<^verbatim>\<open>" AS "\<close>.\<close>

definition select_column :: "string \<Rightarrow> string" where
  "select_column e =
     (case str_find e '' as '' of
        Some p \<Rightarrow> take p e
      | None \<Rightarrow> (case str_find e '' AS '' of Some p \<Rightarrow> take p e | None \<Rightarrow> e))"

text \<open>The identifier around the first dot of a WHERE or HAVING condition.\<close>

definition dotted_ident :: "string \<Rightarrow> string option" where
  "dotted_ident w =
     (case str_find w ''.'' of
        None \<Rightarrow> None
      | Some p \<Rightarrow>
          Some (rev (takeWhile is_ident_char (rev (take p w))) @ ''.'' @
                takeWhile is_ident_char (drop (p + 1) w)))"

text \<open>The message of the first check that fails, if any.\<close>

fun first_failure :: "(bool \<times> string) list \<Rightarrow> string option" where
  "first_failure [] = None"
| "first_failure ((ok, msg) # rs) = (if ok then first_failure rs else Some msg)"

definition check_select_item ::
  "StatisticsManager \<Rightarrow> (string \<times> string) list \<Rightarrow> SelectItem \<Rightarrow> bool \<times> string" where
  "check_select_item stats aliasToTable s =
     (let col = select_column (expr s)
      in if col \<noteq> ''*'' \<and> str_find col ''('' = None
         then findColumn stats aliasToTable col
         else (True, []))"

definition check_condition ::
  "StatisticsManager \<Rightarrow> (string \<times> string) list \<Rightarrow> string \<Rightarrow> bool \<times> string" where
  "check_condition stats aliasToTable w =
     (case dotted_ident w of
        None \<Rightarrow> (True, [])
      | Some ident \<Rightarrow> findColumn stats aliasToTable ident)"

definition semantic_validate :: "SelectQuery \<Rightarrow> StatisticsManager \<Rightarrow> string \<Rightarrow> bool \<times> string" where
  "semantic_validate q stats err_in =
     (case getTableStatsCI stats (name (from_table q)) of
        None \<Rightarrow>
          (True, ''Warning: Table '' @ apostrophe @ name (from_table q) @ apostrophe @
                 '' not found in statistics, proceeding anyway'')
      | Some ts \<Rightarrow>
          (let resolved = table_name ts;
               a = (if table_alias (from_table q) = [] then resolved
                    else table_alias (from_table q))
           in case resolve_joins stats (joins q) (set_alias [] (to_lower a) resolved) of
                Inl err \<Rightarrow> (False, err)
              | Inr aliasToTable \<Rightarrow>
                  (case first_failure
                          (map (check_select_item stats aliasToTable) (select_items q) @
                           map (check_condition stats aliasToTable) (where_conditions q) @
                           map (check_condition stats aliasToTable) (having_conditions q)) of
                     Some err \<Rightarrow> (False, err)
                   | None \<Rightarrow> (True, err_in))))"

section \<open>The join node of the plan generator (plan\_generator.cpp)\<close>

text \<open>
  A plan node with its estimated cardinality. The estimated cost, a \<^verbatim>\<open>double\<close> computed
  by floating-point arithmetic, is left out.
\<close>

datatype PlanNode =
  ScanNode string string "64 word"
| JoinNode string PlanNode PlanNode "string list" "64 word"

fun estimated_cardinality :: "PlanNode \<Rightarrow> 64 word" where
  "estimated_cardinality (ScanNode t a n) = n"
| "estimated_cardinality (JoinNode jt l r conds n) = n"

text \<open>
  The first plan of generateScanPlans, the table scan, when the table is found under its
  exact name; the index scans come after it in the list.
\<close>

definition first_scan_plan :: "StatisticsManager \<Rightarrow> string \<Rightarrow> string \<Rightarrow> PlanNode option" where
  "first_scan_plan stats tname a =
     (case getTableStats stats tname of
        None \<Rightarrow> None
      | Some ts \<Rightarrow> Some (ScanNode tname a (row_count ts)))"

text \<open>\<^verbatim>\<open>stats ? stats->row_count : 7\<close>, with the case-insensitive lookup.\<close>

definition rows_or_default :: "StatisticsManager \<Rightarrow> string \<Rightarrow> 64 word" where
  "rows_or_default stats tname =
     (case getTableStatsCI stats tname of Some ts \<Rightarrow> row_count ts | None \<Rightarrow> 7)"

text \<open>
  The join node that generatePlans builds for a query with at least one join; a query
  without joins takes the single-table branch, which builds none.
\<close>

definition generatePlans_join_node :: "StatisticsManager \<Rightarrow> SelectQuery \<Rightarrow> PlanNode option" where
  "generatePlans_join_node stats query =
     (case joins query of
        [] \<Rightarrow> None
      | j # js \<Rightarrow>
          (let t0 = name (from_table query);
               t1 = name (table j);
               left_scan = (case first_scan_plan stats t0 (table_alias (from_table query)) of
                              Some s \<Rightarrow> s
                            | None \<Rightarrow> ScanNode t0 (table_alias (from_table query)) 7);
               right_scan = (case first_scan_plan stats t1 (table_alias (table j)) of
                               Some s \<Rightarrow> s
                             | None \<Rightarrow> ScanNode t1 (table_alias (table j)) 7);
               join_conds_flat = (if on_conds j \<noteq> [] then on_conds j else []);
               left_rows = rows_or_default stats t0;
               right_rows = rows_or_default stats t1
           in Some (JoinNode ''NESTED'' left_scan right_scan join_conds_flat
                      (max 1 (left_rows * right_rows div 10)))))"

text \<open>The join node that one round of the loop of generateLeftDeepJoin builds.\<close>

definition left_deep_join_node :: "PlanNode \<Rightarrow> PlanNode \<Rightarrow> string list \<Rightarrow> PlanNode" where
  "left_deep_join_node current right join_conds =
     JoinNode ''inner'' current right join_conds
       (estimated_cardinality current * estimated_cardinality right div 10)"

section \<open>Notions of the specification and example inputs\<close>

text \<open>The names of the joined tables, in the order of the joins.\<close>

definition join_names :: "SelectQuery \<Rightarrow> string list" where
  "join_names q = map (\<lambda>j. name (table j)) (joins q)"

text \<open>
  The estimated row count of the inner side of each join: the cardinality of the table
  scan that the plan generator builds for the joined table.
\<close>

definition inner_side_rows :: "StatisticsManager \<Rightarrow> SelectQuery \<Rightarrow> 64 word option list" where
  "inner_side_rows stats q =
     map (\<lambda>j. map_option estimated_cardinality
                 (first_scan_plan stats (name (table j)) (table_alias (table j))))
         (joins q)"

text \<open>The fields that the rewriter never writes agree in two queries.\<close>

definition same_frame :: "SelectQuery \<Rightarrow> SelectQuery \<Rightarrow> bool" where
  "same_frame q' q =
     (distinct_q q' = distinct_q q \<and> group_by q' = group_by q \<and>
      having_conditions q' = having_conditions q \<and> order_by q' = order_by q \<and>
      limit q' = limit q \<and> subqueries q' = subqueries q)"

text \<open>
  The normalized text of a condition: without white space and in upper case. This is
  how the standalone optimizer (sqlopt.cpp, apply\_rule\_based\_transforms) recognizes
  the trivial condition \<^verbatim>\<open>1=1\<close>; the engine has no normalization of its own.
\<close>

definition toupper_char :: "char \<Rightarrow> char" where
  "toupper_char c =
     (let n = (of_char c :: nat) in if 97 \<le> n \<and> n \<le> 122 then char_of (n - 32) else c)"

definition normalized_text :: "string \<Rightarrow> string" where
  "normalized_text c = map toupper_char (filter (\<lambda>ch. \<not> is_space_char ch) c)"


definition table_ref :: "string \<Rightarrow> string \<Rightarrow> TableRef" where
  "table_ref n a = \<lparr>name = n, table_alias = a, pushedFilters = []\<rparr>"

text \<open>\<^verbatim>\<open>SELECT * FROM t\<close> with the joins \<open>js\<close> and the WHERE conditions \<open>conds\<close>.\<close>

definition select_star :: "TableRef \<Rightarrow> JoinClause list \<Rightarrow> string list \<Rightarrow> SelectQuery" where
  "select_star t js conds =
     \<lparr>distinct_q = False, select_items = [\<lparr>expr = ''*'', item_alias = []\<rparr>],
      from_table = t, joins = js,
      where_conditions = conds, group_by = [], having_conditions = [], order_by = [],
      limit = - 1, subqueries = []\<rparr>"

definition table_stats ::
  "string \<Rightarrow> 64 word \<Rightarrow> (string \<times> ColumnStats) list \<Rightarrow> TableStatistics" where
  "table_stats n rows cols =
     \<lparr>table_name = n, row_count = rows, page_count = (rows + 99) div 100,
      column_stats = cols, available_indexes = []\<rparr>"

text \<open>
  The example queries are values of SelectQuery; the SQL shown with an example says
  which query is meant. The parser writes an ON condition as \<^verbatim>\<open>u.id = o.user_id\<close>
  and a WHERE condition with a blank between any two tokens
  (\<^verbatim>\<open>u . id = o . user_id\<close>). The examples have the WHERE conditions without the
  blanks around the dot, except those that say that they follow the parser.
\<close>

text \<open>\<^verbatim>\<open>SELECT * FROM t LEFT JOIN b ON t.x = b.x LEFT JOIN a ON t.y = a.y\<close>\<close>

definition query_two_left_joins :: SelectQuery where
  "query_two_left_joins =
     select_star (table_ref ''t'' [])
       [\<lparr>type = LEFT, table = table_ref ''b'' [], on_conds = [''t.x = b.x'']\<rparr>,
        \<lparr>type = LEFT, table = table_ref ''a'' [], on_conds = [''t.y = a.y'']\<rparr>] []"

definition catalog_a_b :: StatisticsManager where
  "catalog_a_b =
     [(''a'', table_stats ''a'' 1000 []), (''b'', table_stats ''b'' 10 []),
      (''t'', table_stats ''t'' 50 [])]"

text \<open>\<^verbatim>\<open>SELECT * FROM users u JOIN orders o ON u.id = o.user_id WHERE o.status = 1\<close>\<close>

definition query_explicit_join :: SelectQuery where
  "query_explicit_join =
     select_star (table_ref ''users'' ''u'')
       [\<lparr>type = INNER, table = table_ref ''orders'' ''o'',
         on_conds = [''u.id = o.user_id'']\<rparr>]
       [''o.status = 1'']"

text \<open>\<^verbatim>\<open>SELECT * FROM users u WHERE u.id < o.user_id\<close>\<close>

definition query_two_alias_filter :: SelectQuery where
  "query_two_alias_filter = select_star (table_ref ''users'' ''u'') [] [''u.id < o.user_id'']"

text \<open>\<^verbatim>\<open>SELECT * FROM users u RIGHT JOIN orders o ON u.id = o.user_id\<close>\<close>

definition query_right_join :: SelectQuery where
  "query_right_join =
     select_star (table_ref ''users'' ''u'')
       [\<lparr>type = RIGHT, table = table_ref ''orders'' ''o'',
         on_conds = [''u.id = o.user_id'']\<rparr>] []"

text \<open>A join of users and orders with no ON condition.\<close>

definition query_cross_join :: SelectQuery where
  "query_cross_join =
     select_star (table_ref ''users'' ''u'')
       [\<lparr>type = INNER, table = table_ref ''orders'' ''o'', on_conds = []\<rparr>] []"

text \<open>\<^verbatim>\<open>SELECT * FROM users u JOIN payments p ON u.id = p.user_id\<close>\<close>

definition query_unknown_join :: SelectQuery where
  "query_unknown_join =
     select_star (table_ref ''users'' ''u'')
       [\<lparr>type = INNER, table = table_ref ''payments'' ''p'',
         on_conds = [''u.id = p.user_id'']\<rparr>] []"

text \<open>\<^verbatim>\<open>SELECT * FROM payments p WHERE p.amount > 5\<close>\<close>

definition query_unknown_from :: SelectQuery where
  "query_unknown_from = select_star (table_ref ''payments'' ''p'') [] [''p.amount > 5'']"

text \<open>
  A catalog with the tables orders and users, 100 rows each; the column status of
  orders has 4 distinct values, the stored selectivity 1/2 and one histogram bucket.
\<close>

definition status_stats :: ColumnStats where
  "status_stats =
     \<lparr>column_name = ''status'', distinct_values = 4, min_value = ''A'', max_value = ''D'',
      selectivity = 1 / 2, histogram = [(''A'', 1 / 4)]\<rparr>"

definition catalog_users_orders :: StatisticsManager where
  "catalog_users_orders =
     [(''orders'', table_stats ''orders'' 100 [(''status'', status_stats)]),
      (''users'', table_stats ''users'' 100 [])]"


text \<open>A table is found under its exact name, or not found at all.\<close>

definition lookups_agree :: "StatisticsManager \<Rightarrow> string \<Rightarrow> bool" where
  "lookups_agree stats tname =
     (getTableStatsCI stats tname = getTableStats stats tname)"

text \<open>
  What a match says about its captures: there is one for each capture group of the
  pattern, and it consists of characters of the class of that group.
\<close>

definition captures_ok :: "atom list \<Rightarrow> string list \<Rightarrow> bool" where
  "captures_ok p caps =
     list_all2 (\<lambda>a x. list_all (in_class (fst a)) x) (filter (\<lambda>a. snd (snd a)) p) caps"

text \<open>\<^verbatim>\<open>SELECT * FROM users u, orders o WHERE u.id = o.user_id AND o.status = 1\<close>\<close>

definition query_comma_join :: SelectQuery where
  "query_comma_join =
     select_star (table_ref ''users'' ''u'')
       [\<lparr>type = INNER, table = table_ref ''orders'' ''o'', on_conds = [''1=1'']\<rparr>]
       [''u.id = o.user_id'', ''o.status = 1'']"

text \<open>A query on users with the WHERE conditions \<^verbatim>\<open>1=1\<close> and \<^verbatim>\<open>id = 42\<close>.\<close>

definition query_trivial_filter :: SelectQuery where
  "query_trivial_filter = select_star (table_ref ''users'' []) [] [''1=1'', ''id = 42'']"

text \<open>\<^verbatim>\<open>SELECT * FROM users WHERE id = 42\<close>\<close>

definition query_id_filter :: SelectQuery where
  "query_id_filter = select_star (table_ref ''users'' []) [] [''id = 42'']"

text \<open>\<^verbatim>\<open>SELECT * FROM users\<close>\<close>

definition query_no_filter :: SelectQuery where
  "query_no_filter = select_star (table_ref ''users'' []) [] []"

text \<open>
  \<^verbatim>\<open>SELECT (SELECT name FROM products p WHERE p.id = o.product_id) AS pname FROM orders o\<close>
\<close>

definition query_scalar_subquery :: SelectQuery where
  "query_scalar_subquery =
     (select_star (table_ref ''orders'' ''o'') [] [])
       \<lparr>select_items :=
          [\<lparr>expr = ''(SELECT name FROM products p WHERE p.id = o.product_id)'',
            item_alias = ''pname''\<rparr>]\<rparr>"

text \<open>A query on users with the WHERE conditions \<^verbatim>\<open>1 = 1\<close> and \<^verbatim>\<open>id = 42\<close>.\<close>

definition query_spaced_trivial_filter :: SelectQuery where
  "query_spaced_trivial_filter =
     select_star (table_ref ''users'' []) [] [''1 = 1'', ''id = 42'']"

text \<open>
  \<^verbatim>\<open>SELECT * FROM t, c JOIN a ON t.k = a.k WHERE c.x = a.x\<close>, with the WHERE condition
  as the parser writes it, its tokens separated by blanks.
\<close>

definition query_mixed_joins :: SelectQuery where
  "query_mixed_joins =
     select_star (table_ref ''t'' [])
       [\<lparr>type = INNER, table = table_ref ''c'' [], on_conds = [''1=1'']\<rparr>,
        \<lparr>type = INNER, table = table_ref ''a'' [], on_conds = [''t.k = a.k'']\<rparr>]
       [''c . x = a . x'']"

text \<open>
  \<^verbatim>\<open>SELECT DISTINCT status FROM orders WHERE id > 5 GROUP BY status HAVING status > 1\<close>
  \<^verbatim>\<open>ORDER BY status DESC LIMIT 10\<close>, with one entry in the list of subqueries.
\<close>

definition query_all_clauses :: SelectQuery where
  "query_all_clauses =
     \<lparr>distinct_q = True, select_items = [\<lparr>expr = ''status'', item_alias = []\<rparr>],
      from_table = table_ref ''orders'' [], joins = [], where_conditions = [''id > 5''],
      group_by = [''status''], having_conditions = [''status > 1''],
      order_by = [\<lparr>order_expr = ''status'', asc = False\<rparr>], limit = 10,
      subqueries = [4096]\<rparr>"

text \<open>
  \<^verbatim>\<open>SELECT * FROM users u, orders o WHERE 1 = 1 AND u.id = o.user_id\<close>, with the
  WHERE conditions as the parser writes them.
\<close>

definition query_comma_join_spaced :: SelectQuery where
  "query_comma_join_spaced =
     select_star (table_ref ''users'' ''u'')
       [\<lparr>type = INNER, table = table_ref ''orders'' ''o'', on_conds = [''1=1'']\<rparr>]
       [''1 = 1'', ''u . id = o . user_id'']"


text \<open>
  Nothing is left for convertCommaJoins to do: no WHERE condition equals an ON condition
  of a join, and none passes the test of convertCommaJoins for the table of a join
  whose first ON condition is \<^verbatim>\<open>1=1\<close>.
\<close>

definition comma_joins_settled :: "SelectQuery \<Rightarrow> bool" where
  "comma_joins_settled q =
     (\<forall>c \<in> set (where_conditions q).
        \<not> is_join_condition (joins q) c \<and>
        (\<forall>j \<in> set (joins q). is_sentinel j \<longrightarrow> \<not> involves c (alias_or_name (table j))))"

section \<open>The library's sort\<close>

lemma std_sort_insertion_sort: "std_sort insertion_sort"
  by (simp add: std_sort_def insertion_sort_def)

lemma std_sort_mset: "std_sort srt \<Longrightarrow> mset (srt js) = mset js"
  by (simp add: std_sort_def)

lemma std_sort_set: "std_sort srt \<Longrightarrow> set (srt js) = set js"
  using std_sort_mset [of srt js] by (metis set_mset_mset)

lemma std_sort_sorted: "std_sort srt \<Longrightarrow> sorted (map (\<lambda>j. name (table j)) (srt js))"
  by (simp add: std_sort_def)

lemma filter_same_key:
  "distinct (map f ys) \<Longrightarrow> k \<in> set ys \<Longrightarrow> filter (\<lambda>x. f k = f x) ys = [k]"
proof (induction ys)
  case Nil
  then show ?case by simp
next
  case (Cons y ys)
  show ?case
  proof (cases "k = y")
    case True
    have "filter (\<lambda>x. f y = f x) ys = []"
      using Cons.prems(1) by (auto simp add: filter_empty_conv)
    with True show ?thesis by simp
  next
    case False
    with Cons.prems have k: "k \<in> set ys" by simp
    then have "f k \<in> f ` set ys" by simp
    with Cons.prems(1) have "f k \<noteq> f y" by auto
    with Cons.IH k Cons.prems(1) show ?thesis by simp
  qed
qed

text \<open>
  Joins with distinct table names have one sorted order only: every sort gives what the
  insertion sort gives, and leaves a sorted list as it is.
\<close>

lemma std_sort_distinct:
  assumes "std_sort srt" and "distinct (map (\<lambda>j. name (table j)) js)"
  shows "srt js = insertion_sort js"
proof -
  let ?f = "\<lambda>j. name (table j)"
  have m: "mset (srt js) = mset js" using assms(1) by (rule std_sort_mset)
  then have "mset (map ?f (srt js)) = mset (map ?f js)" by simp
  then have d: "distinct (map ?f (srt js))"
    using assms(2) by (metis mset_eq_imp_distinct_iff)
  have "sort_key ?f js = srt js"
  proof (rule properties_for_sort_key)
    show "mset (srt js) = mset js" by (rule m)
  next
    fix k assume k: "k \<in> set (srt js)"
    then have "k \<in> set js" using std_sort_set [OF assms(1)] by simp
    then show "filter (\<lambda>x. ?f k = ?f x) (srt js) = filter (\<lambda>x. ?f k = ?f x) js"
      using k by (simp add: filter_same_key [OF d] filter_same_key [OF assms(2)])
  next
    show "sorted (map ?f (srt js))" using assms(1) by (rule std_sort_sorted)
  qed
  then show ?thesis by (simp add: insertion_sort_def)
qed

lemma std_sort_sorted_distinct:
  assumes "std_sort srt" and "distinct (map (\<lambda>j. name (table j)) js)"
    and "sorted (map (\<lambda>j. name (table j)) js)"
  shows "srt js = js"
  using std_sort_distinct [OF assms(1,2)] assms(3)
  by (simp add: insertion_sort_def sort_key_id_if_sorted)

section \<open>The fields the rewriter leaves alone\<close>

lemma frame_reconstructCommaJoins: "same_frame (reconstructCommaJoins q) q"
  by (simp add: same_frame_def reconstructCommaJoins_def Let_def)

lemma frame_convertCommaJoins: "same_frame (convertCommaJoins q) q"
  using frame_reconstructCommaJoins
  by (simp add: same_frame_def convertCommaJoins_def Let_def split: prod.splits)

lemma frame_convertSubqueriesToJoins: "same_frame (convertSubqueriesToJoins q) q"
  by (simp add: same_frame_def convertSubqueriesToJoins_def split: prod.splits)

lemma frame_pushdownPredicates: "same_frame (pushdownPredicates q) q"
  by (simp add: same_frame_def pushdownPredicates_def)

lemma frame_reorderJoins: "same_frame (reorderJoins srt q) q"
  by (simp add: same_frame_def reorderJoins_def)

lemma same_frame_trans: "same_frame a b \<Longrightarrow> same_frame b c \<Longrightarrow> same_frame a c"
  by (simp add: same_frame_def)

lemma frame_rewrite: "same_frame (rewrite srt q) q"
  unfolding rewrite_def pushdownProjections_def
  by (rule same_frame_trans [OF frame_reorderJoins],
      rule same_frame_trans [OF frame_pushdownPredicates],
      rule same_frame_trans [OF frame_convertSubqueriesToJoins],
      rule frame_convertCommaJoins)

text \<open>
  C10: the rewriter leaves the fields distinct, group\_by, having\_conditions, order\_by
  and limit of every query exactly as they were, and the list of subqueries as well:
  the rewritten query is the original one with new values for select\_items,
  from\_table, joins and where\_conditions, whatever the library's sort does.
\<close>

theorem rewrite_frame:
  "distinct_q (rewrite srt q) = distinct_q q \<and>
   group_by (rewrite srt q) = group_by q \<and>
   having_conditions (rewrite srt q) = having_conditions q \<and>
   order_by (rewrite srt q) = order_by q \<and>
   limit (rewrite srt q) = limit q \<and>
   subqueries (rewrite srt q) = subqueries q \<and>
   rewrite srt q =
     q\<lparr>select_items := select_items (rewrite srt q),
       from_table := from_table (rewrite srt q),
       joins := joins (rewrite srt q),
       where_conditions := where_conditions (rewrite srt q)\<rparr>"
proof -
  have f: "same_frame (rewrite srt q) q" by (rule frame_rewrite)
  have "rewrite srt q =
     q\<lparr>select_items := select_items (rewrite srt q),
       from_table := from_table (rewrite srt q),
       joins := joins (rewrite srt q),
       where_conditions := where_conditions (rewrite srt q)\<rparr>"
    using f by (intro SelectQuery.equality) (simp_all add: same_frame_def)
  with f show ?thesis by (simp add: same_frame_def)
qed

lemma rewrite_query_all_clauses:
  "rewrite insertion_sort query_all_clauses =
     query_all_clauses
       \<lparr>from_table := \<lparr>name = ''orders'', table_alias = [], pushedFilters = [''id > 5'']\<rparr>,
        where_conditions := []\<rparr>"
  by code_simp

theorem rewrite_frame_witness:
  "distinct_q (rewrite insertion_sort query_all_clauses) = True \<and>
   group_by (rewrite insertion_sort query_all_clauses) = [''status''] \<and>
   having_conditions (rewrite insertion_sort query_all_clauses) = [''status > 1''] \<and>
   order_by (rewrite insertion_sort query_all_clauses) =
     [\<lparr>order_expr = ''status'', asc = False\<rparr>] \<and>
   limit (rewrite insertion_sort query_all_clauses) = 10 \<and>
   subqueries (rewrite insertion_sort query_all_clauses) = [4096] \<and>
   from_table (rewrite insertion_sort query_all_clauses) \<noteq> from_table query_all_clauses \<and>
   where_conditions (rewrite insertion_sort query_all_clauses) \<noteq>
     where_conditions query_all_clauses"
  using rewrite_frame [of insertion_sort query_all_clauses]
  by (simp add: rewrite_query_all_clauses) (simp add: query_all_clauses_def table_ref_def)

section \<open>Join reordering\<close>

lemma sorted_short: "length xs \<le> 1 \<Longrightarrow> sorted (map f xs)"
  by (cases xs) auto

lemma reorderJoins_sorted: "std_sort srt \<Longrightarrow> sorted (join_names (reorderJoins srt q))"
  by (simp add: join_names_def reorderJoins_def sorted_short std_sort_sorted)

lemma reorderJoins_mset: "std_sort srt \<Longrightarrow> mset (joins (reorderJoins srt q)) = mset (joins q)"
  by (simp add: reorderJoins_def std_sort_mset)

text \<open>
  C9, as the code has it: the join-reordering transform leaves the joins sorted in
  ascending order of their table names; the result is a permutation of the joins, no
  other field changes, and joins of every type take part. It is the last transform, so
  the joins of a rewritten query are in that order. This holds for every sort that the
  library may have.
\<close>

theorem reorderJoins_sorted_by_name:
  "std_sort srt \<longrightarrow>
     sorted (join_names (reorderJoins srt q)) \<and>
     mset (joins (reorderJoins srt q)) = mset (joins q) \<and>
     reorderJoins srt q = q\<lparr>joins := joins (reorderJoins srt q)\<rparr> \<and>
     sorted (join_names (rewrite srt q))"
  using reorderJoins_sorted reorderJoins_mset by (simp add: reorderJoins_def rewrite_def)

theorem reorderJoins_sorted_by_name_witness:
  "std_sort insertion_sort \<and>
   join_names (reorderJoins insertion_sort query_two_left_joins) = [''a'', ''b''] \<and>
   sorted (join_names (reorderJoins insertion_sort query_two_left_joins))"
  using reorderJoins_sorted_by_name [of insertion_sort query_two_left_joins]
    std_sort_insertion_sort
  by (simp add: reorderJoins_def insertion_sort_def query_two_left_joins_def select_star_def
      table_ref_def join_names_def)

text \<open>
  C9 as stated fails: two LEFT joins on the tables b (10 rows) and a (1000 rows) are
  exchanged, and the inner sides then come in descending order of their row counts. The
  two names differ, so every sort of the library gives this order.
\<close>

theorem reorderJoins_counterexample:
  "map type (joins query_two_left_joins) = [LEFT, LEFT] \<and>
   join_names query_two_left_joins = [''b'', ''a''] \<and>
   join_names (reorderJoins insertion_sort query_two_left_joins) = [''a'', ''b''] \<and>
   inner_side_rows catalog_a_b (reorderJoins insertion_sort query_two_left_joins) =
     [Some 1000, Some 10] \<and>
   \<not> sorted [1000 :: 64 word, 10]"
  by (simp add: reorderJoins_def insertion_sort_def query_two_left_joins_def select_star_def
      table_ref_def join_names_def inner_side_rows_def first_scan_plan_def getTableStats_def
      catalog_a_b_def table_stats_def)

section \<open>Predicate pushdown\<close>

text \<open>
  C4, as the code has it: predicate pushdown acts only on a query without joins, where
  it moves every WHERE conjunct, whatever it references, into the pushed filters of the
  FROM table (replacing them) and empties the WHERE conditions. On a query with at least
  one join it changes nothing: every conjunct stays a WHERE condition and no pushed
  filter is written.
\<close>

theorem pushdownPredicates_cases:
  "(joins q = [] \<longrightarrow>
      pushedFilters (from_table (pushdownPredicates q)) = where_conditions q \<and>
      where_conditions (pushdownPredicates q) = [] \<and>
      pushdownPredicates q =
        q\<lparr>from_table := (from_table q)\<lparr>pushedFilters := where_conditions q\<rparr>,
          where_conditions := []\<rparr>) \<and>
   (joins q \<noteq> [] \<longrightarrow> pushdownPredicates q = q)"
  by (simp add: pushdownPredicates_def)

theorem pushdownPredicates_cases_witness:
  "joins query_two_alias_filter = [] \<and>
   pushedFilters (from_table (pushdownPredicates query_two_alias_filter)) =
     [''u.id < o.user_id''] \<and>
   where_conditions (pushdownPredicates query_two_alias_filter) = [] \<and>
   joins query_explicit_join \<noteq> [] \<and>
   pushdownPredicates query_explicit_join = query_explicit_join"
  using pushdownPredicates_cases [of query_two_alias_filter]
    pushdownPredicates_cases [of query_explicit_join]
  by (simp add: query_two_alias_filter_def query_explicit_join_def select_star_def)

text \<open>
  C4 as stated fails: the conjunct \<^verbatim>\<open>o.status = 1\<close> references the alias o of the
  joined table orders and not the alias u, and pushdown leaves it among the WHERE
  conditions; the pushed filters of orders stay empty. The whole rewriter leaves this
  query as it is.
\<close>

theorem pushdownPredicates_counterexample:
  "isPushablePredicate ''o.status = 1'' ''o'' \<and>
   \<not> isPushablePredicate ''o.status = 1'' ''u'' \<and>
   alias_or_name (from_table query_explicit_join) = ''u'' \<and>
   map (\<lambda>j. alias_or_name (table j)) (joins query_explicit_join) = [''o''] \<and>
   where_conditions query_explicit_join = [''o.status = 1''] \<and>
   where_conditions (pushdownPredicates query_explicit_join) = [''o.status = 1''] \<and>
   map (\<lambda>j. pushedFilters (table j)) (joins (pushdownPredicates query_explicit_join)) = [[]] \<and>
   rewrite insertion_sort query_explicit_join = query_explicit_join"
proof -
  have "rewrite insertion_sort query_explicit_join = query_explicit_join"
    by code_simp
  then show ?thesis
    by (simp add: isPushablePredicate_def str_contains_def query_explicit_join_def
        select_star_def table_ref_def pushdownPredicates_def alias_or_name_def)
qed

section \<open>The join types in the emitted SQL\<close>

lemma reorderJoins_single: "length (joins q) \<le> 1 \<Longrightarrow> reorderJoins srt q = q"
  by (simp add: reorderJoins_def)

lemma rewrite_query_right_join: "rewrite srt query_right_join = query_right_join"
proof -
  have "pushdownProjections (pushdownPredicates (convertSubqueriesToJoins
          (convertCommaJoins query_right_join))) = query_right_join"
    by code_simp
  moreover have "length (joins query_right_join) \<le> 1"
    by (simp add: query_right_join_def select_star_def)
  ultimately show ?thesis by (simp add: rewrite_def reorderJoins_single)
qed

text \<open>
  C5 fails on the code: a join of type RIGHT is written with the token INNER, in
  join\_type\_to\_string and so in the SQL of the rewritten query. The query has one
  join, which the rewriter does not sort.
\<close>

theorem right_join_rendered_as_inner:
  "map type (joins query_right_join) = [RIGHT] \<and>
   join_type_to_string RIGHT = ''INNER'' \<and>
   selectQueryToSQL (rewrite srt query_right_join) =
     ''SELECT * FROM users AS u INNER JOIN orders AS o ON u.id = o.user_id''"
  by (simp add: rewrite_query_right_join)
     (simp add: query_right_join_def select_star_def table_ref_def selectQueryToSQL_def
      join_sql_def table_sql_def select_item_sql_def)

section \<open>Selectivity estimation\<close>

text \<open>
  C2, as the code has it: an unknown table or column gives 0.1. For a known column, a
  value that occurs in the histogram gives the frequency of its first bucket, whatever
  the operator is; otherwise \<^verbatim>\<open>=\<close> gives the stored selectivity of the column, the
  four range operators give 0.3, and LIKE and every other operator give 0.1.
\<close>

theorem estimateSelectivity_cases:
  "(getTableStats stats t = None \<longrightarrow> estimateSelectivity stats t c op v = 0.1) \<and>
   (getTableStats stats t = Some ts \<and> map_of (column_stats ts) c = None \<longrightarrow>
      estimateSelectivity stats t c op v = 0.1) \<and>
   (getTableStats stats t = Some ts \<and> map_of (column_stats ts) c = Some cs \<and>
    histogram_lookup (histogram cs) v = Some freq \<longrightarrow>
      estimateSelectivity stats t c op v = freq) \<and>
   (getTableStats stats t = Some ts \<and> map_of (column_stats ts) c = Some cs \<and>
    histogram_lookup (histogram cs) v = None \<longrightarrow>
      estimateSelectivity stats t c op v =
        (if op = ''='' then selectivity cs
         else if op \<in> {''>'', ''<'', ''>='', ''<=''} then 0.3
         else 0.1))"
  by (simp add: estimateSelectivity_def)

lemma orders_stats:
  "getTableStats catalog_users_orders ''orders'' =
     Some (table_stats ''orders'' 100 [(''status'', status_stats)])"
  by (simp add: getTableStats_def catalog_users_orders_def)

lemma status_lookup:
  "map_of (column_stats (table_stats ''orders'' 100 [(''status'', status_stats)])) ''status'' =
     Some status_stats"
  by (simp add: table_stats_def)

lemma histogram_A: "histogram_lookup (histogram status_stats) ''A'' = Some (1 / 4)"
  by (simp add: histogram_lookup_def status_stats_def)

lemma histogram_Z: "histogram_lookup (histogram status_stats) ''Z'' = None"
  by (simp add: histogram_lookup_def status_stats_def)

theorem estimateSelectivity_cases_witness:
  "estimateSelectivity catalog_users_orders ''nosuch'' ''status'' ''='' ''A'' = 0.1 \<and>
   estimateSelectivity catalog_users_orders ''orders'' ''nosuch'' ''='' ''A'' = 0.1 \<and>
   estimateSelectivity catalog_users_orders ''orders'' ''status'' ''='' ''A'' = 1 / 4 \<and>
   estimateSelectivity catalog_users_orders ''orders'' ''status'' ''<'' ''A'' = 1 / 4 \<and>
   estimateSelectivity catalog_users_orders ''orders'' ''status'' ''='' ''Z'' = 1 / 2 \<and>
   estimateSelectivity catalog_users_orders ''orders'' ''status'' ''<'' ''Z'' = 0.3 \<and>
   estimateSelectivity catalog_users_orders ''orders'' ''status'' ''LIKE'' ''Z'' = 0.1"
proof -
  have n: "getTableStats catalog_users_orders ''nosuch'' = None"
    by (simp add: getTableStats_def catalog_users_orders_def)
  have c: "map_of (column_stats (table_stats ''orders'' 100 [(''status'', status_stats)]))
             ''nosuch'' = None"
    by (simp add: table_stats_def)
  note o = orders_stats status_lookup
  have "selectivity status_stats = 1 / 2" by (simp add: status_stats_def)
  then show ?thesis
    using
      estimateSelectivity_cases [where stats = catalog_users_orders and t = "''nosuch''"
        and c = "''status''" and op = "''=''" and v = "''A''"]
      estimateSelectivity_cases [where stats = catalog_users_orders and t = "''orders''"
        and ts = "table_stats ''orders'' 100 [(''status'', status_stats)]"
        and c = "''nosuch''" and op = "''=''" and v = "''A''"]
      estimateSelectivity_cases [where stats = catalog_users_orders and t = "''orders''"
        and ts = "table_stats ''orders'' 100 [(''status'', status_stats)]"
        and c = "''status''" and cs = status_stats and op = "''=''" and v = "''A''"
        and freq = "1 / 4"]
      estimateSelectivity_cases [where stats = catalog_users_orders and t = "''orders''"
        and ts = "table_stats ''orders'' 100 [(''status'', status_stats)]"
        and c = "''status''" and cs = status_stats and op = "''<''" and v = "''A''"
        and freq = "1 / 4"]
      estimateSelectivity_cases [where stats = catalog_users_orders and t = "''orders''"
        and ts = "table_stats ''orders'' 100 [(''status'', status_stats)]"
        and c = "''status''" and cs = status_stats and op = "''=''" and v = "''Z''"]
      estimateSelectivity_cases [where stats = catalog_users_orders and t = "''orders''"
        and ts = "table_stats ''orders'' 100 [(''status'', status_stats)]"
        and c = "''status''" and cs = status_stats and op = "''<''" and v = "''Z''"]
      estimateSelectivity_cases [where stats = catalog_users_orders and t = "''orders''"
        and ts = "table_stats ''orders'' 100 [(''status'', status_stats)]"
        and c = "''status''" and cs = status_stats and op = "''LIKE''" and v = "''Z''"]
    by (simp add: n c o histogram_A histogram_Z)
qed

text \<open>
  C2 as stated fails twice on the column status (4 distinct values, stored selectivity
  1/2, histogram bucket A with frequency 1/4). The value Z is not in the histogram, and
  \<^verbatim>\<open>status = Z\<close> is estimated at the stored selectivity 1/2, not at 1/4, which is
  1/distinct\_values capped at 1/2. The value A is in the histogram, and the range
  condition \<^verbatim>\<open>status < A\<close> is estimated at the frequency 1/4, not at 0.3.
\<close>

theorem estimateSelectivity_counterexample:
  "histogram_lookup (histogram status_stats) ''Z'' = None \<and>
   estimateSelectivity catalog_users_orders ''orders'' ''status'' ''='' ''Z'' = 1 / 2 \<and>
   min (1 / real (unat (distinct_values status_stats))) (selectivity status_stats) = 1 / 4 \<and>
   histogram_lookup (histogram status_stats) ''A'' = Some (1 / 4) \<and>
   estimateSelectivity catalog_users_orders ''orders'' ''status'' ''<'' ''A'' = 1 / 4"
  by (simp add: estimateSelectivity_def orders_stats status_lookup histogram_A histogram_Z)
     (simp add: status_stats_def)

section \<open>The estimated cardinality of a join\<close>

lemma unat_join_estimate:
  fixes l r :: "64 word"
  assumes "unat l * unat r < 2 ^ 64"
  shows "unat (max 1 (l * r div 10)) = max 1 (unat l * unat r div 10)"
proof -
  have m: "unat (l * r) = unat l * unat r"
    using assms by (simp add: unat_mult_lem [THEN iffD1])
  have d: "unat (l * r div 10) = unat l * unat r div 10"
    by (simp add: unat_div m)
  have "unat (max 1 (l * r div 10)) = max (unat (1 :: 64 word)) (unat (l * r div 10))"
    by (simp add: max_def word_le_nat_alt)
  then show ?thesis by (simp add: d)
qed

lemma generatePlans_join_node_Cons:
  "joins q = j # js \<Longrightarrow>
   generatePlans_join_node stats q =
     Some (JoinNode ''NESTED''
             (case first_scan_plan stats (name (from_table q)) (table_alias (from_table q)) of
                Some s \<Rightarrow> s
              | None \<Rightarrow> ScanNode (name (from_table q)) (table_alias (from_table q)) 7)
             (case first_scan_plan stats (name (table j)) (table_alias (table j)) of
                Some s \<Rightarrow> s
              | None \<Rightarrow> ScanNode (name (table j)) (table_alias (table j)) 7)
             (on_conds j)
             (max 1 (rows_or_default stats (name (from_table q)) *
                     rows_or_default stats (name (table j)) div 10)))"
  by (simp add: generatePlans_join_node_def Let_def)

lemma rows_users: "rows_or_default catalog_users_orders ''users'' = 100"
  by (simp add: rows_or_default_def getTableStatsCI_def catalog_users_orders_def
      table_stats_def)

lemma rows_orders: "rows_or_default catalog_users_orders ''orders'' = 100"
  by (simp add: rows_or_default_def getTableStatsCI_def catalog_users_orders_def
      table_stats_def)

lemma first_scan_plan_agree:
  "lookups_agree stats t \<Longrightarrow>
   estimated_cardinality
     (case first_scan_plan stats t a of Some s \<Rightarrow> s | None \<Rightarrow> ScanNode t a 7)
     = rows_or_default stats t"
  by (cases "getTableStats stats t")
     (simp_all add: lookups_agree_def first_scan_plan_def rows_or_default_def)

text \<open>
  C7, as the code has it: the join node that generatePlans builds for the FROM table and
  the first joined table has the estimated cardinality max(1, L * R / 10), in 64-bit
  unsigned arithmetic with integer division, whether the join has ON conditions or not.
  Here L and R are the estimated cardinalities of the two scans below the join, which
  are the row counts of the two tables in the catalog, or 7 for a table that the catalog
  does not have; this is stated for tables that the catalog has under exactly their
  names or does not have at all. The join node of generateLeftDeepJoin has the same
  cardinality max(1, L * R / 10) of its two inputs, stated where L * R / 10 is at least 1.
\<close>

theorem join_node_cardinality:
  "(joins q = j # js \<and> lookups_agree stats (name (from_table q)) \<and>
    lookups_agree stats (name (table j)) \<longrightarrow>
      (\<exists>left_scan right_scan n.
         generatePlans_join_node stats q =
           Some (JoinNode ''NESTED'' left_scan right_scan (on_conds j) n) \<and>
         estimated_cardinality left_scan = rows_or_default stats (name (from_table q)) \<and>
         estimated_cardinality right_scan = rows_or_default stats (name (table j)) \<and>
         n = max 1 (estimated_cardinality left_scan * estimated_cardinality right_scan div 10) \<and>
         (unat (estimated_cardinality left_scan) * unat (estimated_cardinality right_scan)
            < 2 ^ 64 \<longrightarrow>
            unat n = max 1 (unat (estimated_cardinality left_scan) *
                            unat (estimated_cardinality right_scan) div 10)))) \<and>
   (1 \<le> estimated_cardinality current * estimated_cardinality right div 10 \<longrightarrow>
      estimated_cardinality (left_deep_join_node current right conds) =
        max 1 (estimated_cardinality current * estimated_cardinality right div 10))"
proof (intro conjI impI)
  assume a: "joins q = j # js \<and> lookups_agree stats (name (from_table q)) \<and>
    lookups_agree stats (name (table j))"
  let ?l = "case first_scan_plan stats (name (from_table q)) (table_alias (from_table q)) of
              Some s \<Rightarrow> s
            | None \<Rightarrow> ScanNode (name (from_table q)) (table_alias (from_table q)) 7"
  let ?r = "case first_scan_plan stats (name (table j)) (table_alias (table j)) of
              Some s \<Rightarrow> s
            | None \<Rightarrow> ScanNode (name (table j)) (table_alias (table j)) 7"
  let ?n = "max 1 (rows_or_default stats (name (from_table q)) *
                   rows_or_default stats (name (table j)) div 10)"
  have g: "generatePlans_join_node stats q = Some (JoinNode ''NESTED'' ?l ?r (on_conds j) ?n)"
    using a by (simp add: generatePlans_join_node_Cons)
  have l: "estimated_cardinality ?l = rows_or_default stats (name (from_table q))"
    using a by (simp add: first_scan_plan_agree)
  have r: "estimated_cardinality ?r = rows_or_default stats (name (table j))"
    using a by (simp add: first_scan_plan_agree)
  have n: "?n = max 1 (estimated_cardinality ?l * estimated_cardinality ?r div 10)"
    by (simp only: l r)
  have u: "unat (estimated_cardinality ?l) * unat (estimated_cardinality ?r) < 2 ^ 64 \<longrightarrow>
           unat ?n = max 1 (unat (estimated_cardinality ?l) *
                            unat (estimated_cardinality ?r) div 10)"
    using unat_join_estimate by (simp only: l r) blast
  from g l r n u
  show "\<exists>left_scan right_scan n.
         generatePlans_join_node stats q =
           Some (JoinNode ''NESTED'' left_scan right_scan (on_conds j) n) \<and>
         estimated_cardinality left_scan = rows_or_default stats (name (from_table q)) \<and>
         estimated_cardinality right_scan = rows_or_default stats (name (table j)) \<and>
         n = max 1 (estimated_cardinality left_scan * estimated_cardinality right_scan div 10) \<and>
         (unat (estimated_cardinality left_scan) * unat (estimated_cardinality right_scan)
            < 2 ^ 64 \<longrightarrow>
            unat n = max 1 (unat (estimated_cardinality left_scan) *
                            unat (estimated_cardinality right_scan) div 10))"
    by blast
next
  assume "1 \<le> estimated_cardinality current * estimated_cardinality right div 10"
  then show "estimated_cardinality (left_deep_join_node current right conds) =
        max 1 (estimated_cardinality current * estimated_cardinality right div 10)"
    by (simp add: left_deep_join_node_def max_def)
qed

lemma agree_users: "lookups_agree catalog_users_orders ''users''"
  by (simp add: lookups_agree_def getTableStatsCI_def getTableStats_def
      catalog_users_orders_def)

lemma agree_orders: "lookups_agree catalog_users_orders ''orders''"
  by (simp add: lookups_agree_def getTableStatsCI_def getTableStats_def
      catalog_users_orders_def)

theorem join_node_cardinality_witness:
  "lookups_agree catalog_users_orders ''users'' \<and>
   lookups_agree catalog_users_orders ''orders'' \<and>
   map_option estimated_cardinality
     (generatePlans_join_node catalog_users_orders query_explicit_join) = Some 1000 \<and>
   estimated_cardinality
     (left_deep_join_node (ScanNode ''users'' [] 100) (ScanNode ''orders'' [] 100) [])
     = 1000"
  using join_node_cardinality [where q = query_explicit_join and stats = catalog_users_orders
      and j = "hd (joins query_explicit_join)" and js = "[]"
      and current = "ScanNode ''users'' [] 100" and right = "ScanNode ''orders'' [] 100"
      and conds = "[]"]
    agree_users agree_orders
  by (auto simp add: query_explicit_join_def select_star_def table_ref_def rows_users
      rows_orders)

text \<open>
  C7 as stated fails: users and orders have 100 rows each. The join with the ON
  condition \<^verbatim>\<open>u.id = o.user_id\<close> is estimated at 1000 rows, not at
  max(1, 100 * 100 * 0.01) = 100, and the join with no ON condition is estimated at
  1000 rows as well, not at 100 * 100 = 10000.
\<close>

theorem join_node_counterexample:
  "on_conds (hd (joins query_explicit_join)) = [''u.id = o.user_id''] \<and>
   generatePlans_join_node catalog_users_orders query_explicit_join =
     Some (JoinNode ''NESTED'' (ScanNode ''users'' ''u'' 100) (ScanNode ''orders'' ''o'' 100)
             [''u.id = o.user_id''] 1000) \<and>
   max 1 (100 * 100 * (0.01 :: real)) = 100 \<and>
   on_conds (hd (joins query_cross_join)) = [] \<and>
   generatePlans_join_node catalog_users_orders query_cross_join =
     Some (JoinNode ''NESTED'' (ScanNode ''users'' ''u'' 100) (ScanNode ''orders'' ''o'' 100)
             [] 1000) \<and>
   (100 * 100 :: real) = 10000"
proof -
  have s: "first_scan_plan catalog_users_orders ''users'' a = Some (ScanNode ''users'' a 100)"
          "first_scan_plan catalog_users_orders ''orders'' a = Some (ScanNode ''orders'' a 100)"
    for a
    by (simp_all add: first_scan_plan_def getTableStats_def catalog_users_orders_def
        table_stats_def)
  show ?thesis
    by (simp add: generatePlans_join_node_def query_explicit_join_def query_cross_join_def
        select_star_def table_ref_def rows_users rows_orders s)
qed

section \<open>Tables that the catalog does not have\<close>

lemma resolve_joins_unknown:
  "\<forall>j \<in> set pre. getTableStatsCI stats (name (table j)) \<noteq> None \<Longrightarrow>
   getTableStatsCI stats (name (table j)) = None \<Longrightarrow>
   resolve_joins stats (pre @ j # post) m =
     Inl (''Unknown table '' @ apostrophe @ name (table j) @ apostrophe)"
  by (induction pre arbitrary: m) (auto simp add: Let_def)

lemma ci_payments: "getTableStatsCI catalog_users_orders ''payments'' = None"
  by (simp add: getTableStatsCI_def catalog_users_orders_def to_lower_def tolower_char_def
      Let_def)

lemma ci_users:
  "getTableStatsCI catalog_users_orders ''users'' = Some (table_stats ''users'' 100 [])"
  by (simp add: getTableStatsCI_def catalog_users_orders_def)

text \<open>
  C8, as the code has it: when the catalog does not have the FROM table, semantic
  validation writes a warning, returns success and checks nothing else. When it has the
  FROM table and does not have the table of some join, of whatever type, validation
  fails with the message \<^verbatim>\<open>Unknown table\<close> for the first such join.
\<close>

theorem semantic_validate_unknown_tables:
  "(getTableStatsCI stats (name (from_table q)) = None \<longrightarrow>
      semantic_validate q stats err_in =
        (True, ''Warning: Table '' @ apostrophe @ name (from_table q) @ apostrophe @
               '' not found in statistics, proceeding anyway'')) \<and>
   (getTableStatsCI stats (name (from_table q)) \<noteq> None \<and>
    joins q = pre @ j # post \<and>
    (\<forall>j' \<in> set pre. getTableStatsCI stats (name (table j')) \<noteq> None) \<and>
    getTableStatsCI stats (name (table j)) = None \<longrightarrow>
      semantic_validate q stats err_in =
        (False, ''Unknown table '' @ apostrophe @ name (table j) @ apostrophe))"
  by (auto simp add: semantic_validate_def Let_def resolve_joins_unknown)

theorem semantic_validate_unknown_tables_witness:
  "semantic_validate query_unknown_from catalog_users_orders [] =
     (True, ''Warning: Table '' @ apostrophe @ ''payments'' @ apostrophe @
            '' not found in statistics, proceeding anyway'') \<and>
   semantic_validate query_unknown_join catalog_users_orders [] =
     (False, ''Unknown table '' @ apostrophe @ ''payments'' @ apostrophe)"
  using
    semantic_validate_unknown_tables [where q = query_unknown_from
      and stats = catalog_users_orders and err_in = "[]" and pre = "[]"
      and j = "hd (joins query_unknown_join)" and post = "[]"]
    semantic_validate_unknown_tables [where q = query_unknown_join
      and stats = catalog_users_orders and err_in = "[]" and pre = "[]"
      and j = "hd (joins query_unknown_join)" and post = "[]"]
  by (simp add: query_unknown_from_def query_unknown_join_def select_star_def table_ref_def
      ci_payments ci_users)

text \<open>
  C8 as stated fails: the catalog has users and no table payments, and the INNER join
  of users with payments is refused.
\<close>

theorem semantic_validate_counterexample:
  "map type (joins query_unknown_join) = [INNER] \<and>
   getTableStatsCI catalog_users_orders (name (from_table query_unknown_join)) \<noteq> None \<and>
   getTableStatsCI catalog_users_orders (name (table (hd (joins query_unknown_join)))) = None \<and>
   semantic_validate query_unknown_join catalog_users_orders [] =
     (False, ''Unknown table '' @ apostrophe @ ''payments'' @ apostrophe)"
  by (simp add: semantic_validate_def query_unknown_join_def select_star_def table_ref_def
      ci_payments ci_users)

section \<open>What the rewriter does with the WHERE conditions\<close>

subsection \<open>convertCommaJoins\<close>

lemma convert_loop_tables:
  "map table (fst (convert_loop m w d js made)) = map table (d @ js)"
  by (induction js arbitrary: d made) (simp_all add: Let_def)

lemma remaining_conditions_Nil [simp]: "remaining_conditions [] w = w"
  by (simp add: remaining_conditions_def is_join_condition_def)

lemma reconstructCommaJoins_where:
  "joins q = [] \<Longrightarrow>
   where_conditions (reconstructCommaJoins q) =
     remaining_conditions (joins (reconstructCommaJoins q)) (where_conditions q)"
  by (simp add: reconstructCommaJoins_def Let_def)

lemma convertCommaJoins_unfold:
  assumes "convert_loop (alias_or_name (from_table q)) (where_conditions q) [] (joins q) False
             = (js, made)"
  shows "convertCommaJoins q =
           (if \<not> made \<and> js = [] \<and> where_conditions q \<noteq> []
            then reconstructCommaJoins (q\<lparr>joins := [], where_conditions := where_conditions q\<rparr>)
            else q\<lparr>joins := js,
                   where_conditions := remaining_conditions js (where_conditions q)\<rparr>)"
  using assms by (auto simp add: convertCommaJoins_def Let_def)

lemma convertCommaJoins_where:
  "where_conditions (convertCommaJoins q) =
     remaining_conditions (joins (convertCommaJoins q)) (where_conditions q)"
proof (cases "convert_loop (alias_or_name (from_table q)) (where_conditions q) [] (joins q) False")
  case (Pair js made)
  show ?thesis
    using reconstructCommaJoins_where
      [of "q\<lparr>joins := [], where_conditions := where_conditions q\<rparr>"]
    by (simp add: convertCommaJoins_unfold [OF Pair])
qed

lemma reconstructCommaJoins_from: "from_table (reconstructCommaJoins q) = from_table q"
  by (simp add: reconstructCommaJoins_def Let_def)

lemma convertCommaJoins_from: "from_table (convertCommaJoins q) = from_table q"
  by (cases "convert_loop (alias_or_name (from_table q)) (where_conditions q) [] (joins q) False")
     (simp add: convertCommaJoins_unfold reconstructCommaJoins_from)

lemma reconstructCommaJoins_select_items: "select_items (reconstructCommaJoins q) = select_items q"
  by (simp add: reconstructCommaJoins_def Let_def)

lemma convertCommaJoins_select_items: "select_items (convertCommaJoins q) = select_items q"
  by (cases "convert_loop (alias_or_name (from_table q)) (where_conditions q) [] (joins q) False")
     (simp add: convertCommaJoins_unfold reconstructCommaJoins_select_items)



subsection \<open>convertSubqueriesToJoins\<close>

lemma subquery_loop_joins_pushed:
  "subquery_loop items = (ns, js, made) \<Longrightarrow> j \<in> set js \<Longrightarrow> pushedFilters (table j) = []"
proof (induction items arbitrary: ns js made)
  case Nil
  then show ?case by simp
next
  case (Cons item items)
  obtain ns' js' made' where s: "subquery_loop items = (ns', js', made')"
    by (cases "subquery_loop items") auto
  show ?case
  proof (cases "convert_item item")
    case None
    with Cons.prems s have "js = js'" by simp
    with Cons.IH [OF s] Cons.prems(2) show ?thesis by simp
  next
    case (Some p)
    obtain ni nj where p: "p = (ni, nj)" by (cases p)
    with Cons.prems s Some have js: "js = nj # js'" by simp
    have "pushedFilters (table nj) = []"
      using Some p
      by (auto simp add: convert_item_def left_join_def split: if_splits option.splits)
    with Cons.IH [OF s] Cons.prems(2) js show ?thesis by auto
  qed
qed

lemma convertSubqueriesToJoins_where:
  "where_conditions (convertSubqueriesToJoins q) = where_conditions q"
  by (simp add: convertSubqueriesToJoins_def split: prod.splits)

lemma convertSubqueriesToJoins_from:
  "from_table (convertSubqueriesToJoins q) = from_table q"
  by (simp add: convertSubqueriesToJoins_def split: prod.splits)

lemma convertSubqueriesToJoins_joins:
  "\<exists>extra. joins (convertSubqueriesToJoins q) = joins q @ extra \<and>
           (\<forall>j \<in> set extra. pushedFilters (table j) = [])"
proof (cases "subquery_loop (select_items q)")
  case (fields ns js made)
  show ?thesis
  proof (cases made)
    case True
    then have "joins (convertSubqueriesToJoins q) = joins q @ js"
      using fields by (simp add: convertSubqueriesToJoins_def)
    then show ?thesis
      using subquery_loop_joins_pushed [OF fields] by blast
  next
    case False
    then have "joins (convertSubqueriesToJoins q) = joins q @ []"
      using fields by (simp add: convertSubqueriesToJoins_def)
    then show ?thesis by (metis empty_iff empty_set)
  qed
qed





subsection \<open>reorderJoins\<close>

lemma reorderJoins_set: "std_sort srt \<Longrightarrow> set (joins (reorderJoins srt q)) = set (joins q)"
  by (simp add: reorderJoins_def std_sort_set)

lemma reorderJoins_Nil_iff: "std_sort srt \<Longrightarrow> joins (reorderJoins srt q) = [] \<longleftrightarrow> joins q = []"
  using reorderJoins_set [of srt q] by (metis set_empty)

lemma reorderJoins_where: "where_conditions (reorderJoins srt q) = where_conditions q"
  by (simp add: reorderJoins_def)

lemma reorderJoins_from: "from_table (reorderJoins srt q) = from_table q"
  by (simp add: reorderJoins_def)

lemma reorderJoins_select_items: "select_items (reorderJoins srt q) = select_items q"
  by (simp add: reorderJoins_def)




subsection \<open>rewrite\<close>

text \<open>The transforms of rewrite that change a query, in their order.\<close>

lemma rewrite_unfold:
  "rewrite srt q =
     reorderJoins srt (pushdownPredicates (convertSubqueriesToJoins (convertCommaJoins q)))"
  by (simp add: rewrite_def pushdownProjections_def)

lemma rewrite_no_joins:
  assumes "std_sort srt" and "joins (rewrite srt q) = []"
  shows "joins (convertCommaJoins q) = []"
    and "joins (convertSubqueriesToJoins (convertCommaJoins q)) = []"
    and "where_conditions (rewrite srt q) = []"
    and "from_table (rewrite srt q) = (from_table q)\<lparr>pushedFilters := where_conditions q\<rparr>"
proof -
  let ?q1 = "convertCommaJoins q"
  let ?q2 = "convertSubqueriesToJoins ?q1"
  have "joins (pushdownPredicates ?q2) = []"
    using assms by (simp add: rewrite_unfold reorderJoins_Nil_iff)
  then show j2: "joins ?q2 = []"
    by (simp add: pushdownPredicates_def split: if_splits)
  then show j1: "joins ?q1 = []"
    using convertSubqueriesToJoins_joins [of ?q1] by auto
  show "where_conditions (rewrite srt q) = []"
    using j2 by (simp add: rewrite_unfold reorderJoins_where pushdownPredicates_def)
  have "where_conditions ?q2 = where_conditions q"
    using convertCommaJoins_where [of q] j1
    by (simp add: convertSubqueriesToJoins_where)
  then show "from_table (rewrite srt q) = (from_table q)\<lparr>pushedFilters := where_conditions q\<rparr>"
    using j2
    by (simp add: rewrite_unfold reorderJoins_from pushdownPredicates_def
        convertSubqueriesToJoins_from convertCommaJoins_from)
qed

lemma rewrite_with_joins:
  assumes "std_sort srt" and "joins (rewrite srt q) \<noteq> []"
  shows "from_table (rewrite srt q) = from_table q"
    and "where_conditions (rewrite srt q) =
           filter (\<lambda>c. \<not> is_join_condition (joins (convertCommaJoins q)) c)
             (where_conditions q)"
    and "joins (convertSubqueriesToJoins (convertCommaJoins q)) \<noteq> []"
proof -
  let ?q2 = "convertSubqueriesToJoins (convertCommaJoins q)"
  have "joins (pushdownPredicates ?q2) \<noteq> []"
    using assms by (simp add: rewrite_unfold reorderJoins_Nil_iff)
  then show j2: "joins ?q2 \<noteq> []"
    by (auto simp add: pushdownPredicates_def split: if_splits)
  then show "from_table (rewrite srt q) = from_table q"
    by (simp add: rewrite_unfold reorderJoins_from pushdownPredicates_def
        convertSubqueriesToJoins_from convertCommaJoins_from)
  show "where_conditions (rewrite srt q) =
           filter (\<lambda>c. \<not> is_join_condition (joins (convertCommaJoins q)) c)
             (where_conditions q)"
    using j2 convertCommaJoins_where [of q]
    by (simp add: rewrite_unfold reorderJoins_where pushdownPredicates_def
        convertSubqueriesToJoins_where remaining_conditions_def)
qed



lemma rewrite_keeps_conjunct:
  assumes "std_sort srt" and "c \<in> set (where_conditions q)"
    and "\<not> is_join_condition (joins (convertCommaJoins q)) c"
  shows "c \<in> set (where_conditions (rewrite srt q)) \<or>
         c \<in> set (pushedFilters (from_table (rewrite srt q)))"
proof (cases "joins (rewrite srt q) = []")
  case True
  from rewrite_no_joins(4) [OF assms(1) True] assms(2) show ?thesis by simp
next
  case False
  from rewrite_with_joins(2) [OF assms(1) False] assms(2,3) show ?thesis by simp
qed






lemma rewrite_query_comma_join_spaced:
  "rewrite insertion_sort query_comma_join_spaced =
     select_star (table_ref ''users'' ''u'')
       [\<lparr>type = INNER, table = table_ref ''orders'' ''o'',
         on_conds = [''u . id = o . user_id'']\<rparr>]
       [''1 = 1'']"
  by code_simp

lemma rewrite_query_trivial_filter:
  "rewrite insertion_sort query_trivial_filter =
     select_star \<lparr>name = ''users'', table_alias = [], pushedFilters = [''1=1'', ''id = 42'']\<rparr>
       [] []"
  by code_simp

lemma rewrite_query_spaced_trivial_filter:
  "rewrite insertion_sort query_spaced_trivial_filter =
     select_star \<lparr>name = ''users'', table_alias = [], pushedFilters = [''1 = 1'', ''id = 42'']\<rparr>
       [] []"
  by code_simp



section \<open>Constant folding\<close>

lemma str_contains_set: "str_contains s pat \<Longrightarrow> set pat \<subseteq> set s"
  unfolding str_contains_def
proof (induction s)
  case Nil
  then show ?case by (simp split: if_splits)
next
  case (Cons c cs)
  show ?case
  proof (cases "prefix pat (c # cs)")
    case True
    then show ?thesis by (rule set_mono_prefix)
  next
    case False
    with Cons.prems have "str_find cs pat \<noteq> None" by simp
    from Cons.IH [OF this] show ?thesis by auto
  qed
qed

lemma reconstruct_loop_on_conds:
  "j \<in> set (reconstruct_loop m w as) \<Longrightarrow> c \<in> set (on_conds j) \<Longrightarrow>
   \<exists>a. str_contains c (a @ ''.'')"
  by (induction as) (auto simp add: Let_def reconstruct_conditions_def split: if_splits)

lemma dotless_not_reconstructed:
  assumes "CHR ''.'' \<notin> set c"
  shows "\<not> is_join_condition (reconstruct_loop m w as) c"
proof
  assume "is_join_condition (reconstruct_loop m w as) c"
  then obtain j where "j \<in> set (reconstruct_loop m w as)" and "c \<in> set (on_conds j)"
    by (auto simp add: is_join_condition_def list_ex_iff)
  then obtain a where "str_contains c (a @ ''.'')"
    using reconstruct_loop_on_conds by blast
  from str_contains_set [OF this] assms show False by auto
qed


lemma trivial_dotless:
  assumes "normalized_text c = ''1=1''"
  shows "CHR ''.'' \<notin> set c"
proof
  assume "CHR ''.'' \<in> set c"
  moreover have "\<not> is_space_char CHR ''.''" by (simp add: is_space_char_def)
  ultimately have "CHR ''.'' \<in> set (filter (\<lambda>ch. \<not> is_space_char ch) c)" by simp
  then have "toupper_char CHR ''.'' \<in> set (normalized_text c)"
    unfolding normalized_text_def by (metis image_eqI set_map)
  then show False using assms by (simp add: toupper_char_def)
qed

lemma convert_loop_on_conds:
  assumes "convert_loop m w d js made = (js', made')"
    and "j' \<in> set js'" and "c \<in> set (on_conds j')"
  shows "(\<exists>j \<in> set d \<union> set js. c \<in> set (on_conds j)) \<or>
         (\<exists>j \<in> set js. is_sentinel j \<and> involves c (alias_or_name (table j)))"
  using assms
proof (induction js arbitrary: d made)
  case Nil
  then show ?case by auto
next
  case (Cons j js)
  let ?jc = "comma_join_conditions m (map (alias_or_name \<circ> table) d) (alias_or_name (table j)) w"
  show ?case
  proof (cases "is_sentinel j \<and> ?jc \<noteq> []")
    case True
    then have "convert_loop m w (d @ [j\<lparr>on_conds := ?jc\<rparr>]) js True = (js', made')"
      using Cons.prems(1) by (simp add: Let_def)
    from Cons.IH [OF this Cons.prems(2,3)]
    consider "\<exists>k \<in> set d \<union> set js. c \<in> set (on_conds k)" | "c \<in> set ?jc"
      | "\<exists>k \<in> set js. is_sentinel k \<and> involves c (alias_or_name (table k))"
      by auto
    then show ?thesis
    proof cases
      case 1
      then show ?thesis by auto
    next
      case 2
      then have "involves c (alias_or_name (table j))"
        by (simp add: comma_join_conditions_def)
      with True show ?thesis by auto
    next
      case 3
      then show ?thesis by auto
    qed
  next
    case False
    then have "convert_loop m w (d @ [j]) js made = (js', made')"
      using Cons.prems(1) by (auto simp add: Let_def split: if_splits)
    from Cons.IH [OF this Cons.prems(2,3)] show ?thesis by auto
  qed
qed

lemma convertCommaJoins_keeps_dotless:
  assumes "CHR ''.'' \<notin> set c"
    and "\<forall>j \<in> set (joins q). c \<notin> set (on_conds j) \<and>
           (is_sentinel j \<longrightarrow> \<not> involves c (alias_or_name (table j)))"
  shows "\<not> is_join_condition (joins (convertCommaJoins q)) c"
proof (cases "convert_loop (alias_or_name (from_table q)) (where_conditions q) [] (joins q) False")
  case (Pair js made)
  have a: "\<not> is_join_condition js c"
  proof
    assume "is_join_condition js c"
    then obtain j' where "j' \<in> set js" and "c \<in> set (on_conds j')"
      by (auto simp add: is_join_condition_def list_ex_iff)
    from convert_loop_on_conds [OF Pair this] assms(2) show False by auto
  qed
  have b: "\<not> is_join_condition
               (joins (reconstructCommaJoins
                  (q\<lparr>joins := [], where_conditions := where_conditions q\<rparr>))) c"
    using dotless_not_reconstructed [OF assms(1)]
    by (simp add: reconstructCommaJoins_def Let_def is_join_condition_def)
  show ?thesis
    using a b by (simp add: convertCommaJoins_unfold [OF Pair])
qed

lemma foldConstants_no_trivial:
  "c \<in> set (where_conditions (foldConstants q)) \<Longrightarrow> \<not> str_contains c ''1=1''"
proof -
  have t: "\<not> str_contains ''TRUE'' ''1=1''" by (simp add: str_contains_def)
  assume "c \<in> set (where_conditions (foldConstants q))"
  then show ?thesis using t by (auto simp add: foldConstants_def split: if_splits)
qed

text \<open>
  C3, as the code has it: the rewriter folds no constant, for every sort that the
  library may have. Let \<open>c\<close> be a WHERE condition whose normalized text is
  \<^verbatim>\<open>1=1\<close> (\<^verbatim>\<open>1=1\<close> itself, or \<^verbatim>\<open>1 = 1\<close> as the parser writes it), in a query
  where \<open>c\<close> is not an ON condition of a join and does not pass the test of
  convertCommaJoins for the table of a join whose first ON condition is \<^verbatim>\<open>1=1\<close>.
  Then \<open>c\<close> is still a WHERE condition or a pushed filter of the FROM table after
  rewriting. foldConstants, which rewrite does not call, drops nothing either: it changes
  only the WHERE conditions, and there it replaces each condition that contains the
  bytes \<^verbatim>\<open>1=1\<close> by \<^verbatim>\<open>TRUE\<close> and keeps every other condition, in place.
\<close>

theorem rewrite_keeps_trivial_conjunct:
  "(std_sort srt \<and> normalized_text c = ''1=1'' \<and> c \<in> set (where_conditions q) \<and>
    (\<forall>j \<in> set (joins q). c \<notin> set (on_conds j) \<and>
       (is_sentinel j \<longrightarrow> \<not> involves c (alias_or_name (table j)))) \<longrightarrow>
      c \<in> set (where_conditions (rewrite srt q)) \<or>
      c \<in> set (pushedFilters (from_table (rewrite srt q)))) \<and>
   foldConstants q =
     q\<lparr>where_conditions :=
         map (\<lambda>cond. if str_contains cond ''1=1'' then ''TRUE'' else cond)
           (where_conditions q)\<rparr> \<and>
   length (where_conditions (foldConstants q)) = length (where_conditions q) \<and>
   (\<forall>c \<in> set (where_conditions (foldConstants q)). \<not> str_contains c ''1=1'')"
proof (intro conjI impI ballI)
  assume a: "std_sort srt \<and> normalized_text c = ''1=1'' \<and> c \<in> set (where_conditions q) \<and>
    (\<forall>j \<in> set (joins q). c \<notin> set (on_conds j) \<and>
       (is_sentinel j \<longrightarrow> \<not> involves c (alias_or_name (table j))))"
  then have "CHR ''.'' \<notin> set c" using trivial_dotless by blast
  from convertCommaJoins_keeps_dotless [OF this] a
  have "\<not> is_join_condition (joins (convertCommaJoins q)) c" by blast
  with rewrite_keeps_conjunct [of srt c q] a
  show "c \<in> set (where_conditions (rewrite srt q)) \<or>
        c \<in> set (pushedFilters (from_table (rewrite srt q)))"
    by blast
next
  show "foldConstants q =
     q\<lparr>where_conditions :=
         map (\<lambda>cond. if str_contains cond ''1=1'' then ''TRUE'' else cond)
           (where_conditions q)\<rparr>"
    by (simp add: foldConstants_def)
next
  show "length (where_conditions (foldConstants q)) = length (where_conditions q)"
    by (simp add: foldConstants_def)
next
  fix c assume "c \<in> set (where_conditions (foldConstants q))"
  then show "\<not> str_contains c ''1=1''" by (rule foldConstants_no_trivial)
qed

lemma normalized_spaced: "normalized_text ''1 = 1'' = ''1=1''"
  by code_simp

lemma not_involved_spaced:
  "map (\<lambda>j. involves ''1 = 1'' (alias_or_name (table j))) (joins query_comma_join_spaced)
     = [False]"
  by code_simp

lemma foldConstants_examples:
  "where_conditions (foldConstants query_trivial_filter) = [''TRUE'', ''id = 42'']"
  "where_conditions (foldConstants query_spaced_trivial_filter) = [''1 = 1'', ''id = 42'']"
  by code_simp+

theorem rewrite_keeps_trivial_conjunct_witness:
  "std_sort insertion_sort \<and>
   normalized_text ''1 = 1'' = ''1=1'' \<and>
   ''1 = 1'' \<in> set (where_conditions query_spaced_trivial_filter) \<and>
   joins query_spaced_trivial_filter = [] \<and>
   ''1 = 1'' \<in> set (pushedFilters (from_table
                       (rewrite insertion_sort query_spaced_trivial_filter))) \<and>
   ''1 = 1'' \<in> set (where_conditions query_comma_join_spaced) \<and>
   map on_conds (joins query_comma_join_spaced) = [[''1=1'']] \<and>
   map (\<lambda>j. involves ''1 = 1'' (alias_or_name (table j))) (joins query_comma_join_spaced)
     = [False] \<and>
   ''1 = 1'' \<in> set (where_conditions (rewrite insertion_sort query_comma_join_spaced)) \<and>
   where_conditions (foldConstants query_trivial_filter) = [''TRUE'', ''id = 42''] \<and>
   where_conditions (foldConstants query_spaced_trivial_filter) = [''1 = 1'', ''id = 42'']"
proof -
  note s = std_sort_insertion_sort
  have h1: "\<forall>j \<in> set (joins query_spaced_trivial_filter).
              ''1 = 1'' \<notin> set (on_conds j) \<and>
              (is_sentinel j \<longrightarrow> \<not> involves ''1 = 1'' (alias_or_name (table j)))"
    by (simp add: query_spaced_trivial_filter_def select_star_def)
  have h2: "\<forall>j \<in> set (joins query_comma_join_spaced).
              ''1 = 1'' \<notin> set (on_conds j) \<and>
              (is_sentinel j \<longrightarrow> \<not> involves ''1 = 1'' (alias_or_name (table j)))"
    using not_involved_spaced
    by (simp add: query_comma_join_spaced_def select_star_def)
  have w1: "''1 = 1'' \<in> set (where_conditions query_spaced_trivial_filter)"
    by (simp add: query_spaced_trivial_filter_def select_star_def)
  have w2: "''1 = 1'' \<in> set (where_conditions query_comma_join_spaced)"
    by (simp add: query_comma_join_spaced_def select_star_def)
  have "''1 = 1'' \<in> set (where_conditions (rewrite insertion_sort query_spaced_trivial_filter)) \<or>
        ''1 = 1'' \<in> set (pushedFilters (from_table
                           (rewrite insertion_sort query_spaced_trivial_filter)))"
    by (rule rewrite_keeps_trivial_conjunct [THEN conjunct1, THEN mp])
       (intro conjI s normalized_spaced w1 h1)
  then have c1: "''1 = 1'' \<in> set (pushedFilters (from_table
                           (rewrite insertion_sort query_spaced_trivial_filter)))"
    by (simp add: rewrite_query_spaced_trivial_filter select_star_def)
  have "''1 = 1'' \<in> set (where_conditions (rewrite insertion_sort query_comma_join_spaced)) \<or>
        ''1 = 1'' \<in> set (pushedFilters (from_table
                           (rewrite insertion_sort query_comma_join_spaced)))"
    by (rule rewrite_keeps_trivial_conjunct [THEN conjunct1, THEN mp])
       (intro conjI s normalized_spaced w2 h2)
  then have c2: "''1 = 1'' \<in> set (where_conditions
                           (rewrite insertion_sort query_comma_join_spaced))"
    by (simp add: rewrite_query_comma_join_spaced select_star_def table_ref_def)
  have j1: "joins query_spaced_trivial_filter = []"
    by (simp add: query_spaced_trivial_filter_def select_star_def)
  have j2: "map on_conds (joins query_comma_join_spaced) = [[''1=1'']]"
    by (simp add: query_comma_join_spaced_def select_star_def)
  show ?thesis
    by (intro conjI s normalized_spaced w1 w2 j1 j2 c1 c2 not_involved_spaced
        foldConstants_examples)
qed

text \<open>
  C3 as stated fails: the conjunct \<^verbatim>\<open>1=1\<close> of the query on users is the first pushed
  filter of the rewritten query, and so is \<^verbatim>\<open>1 = 1\<close>, as the parser writes it; in the
  comma join of users and orders, \<^verbatim>\<open>1 = 1\<close> stays among the WHERE conditions.
\<close>

theorem rewrite_trivial_counterexample:
  "where_conditions query_trivial_filter = [''1=1'', ''id = 42''] \<and>
   pushedFilters (from_table (rewrite insertion_sort query_trivial_filter)) =
     [''1=1'', ''id = 42''] \<and>
   ''1=1'' \<in> set (pushedFilters (from_table (rewrite insertion_sort query_trivial_filter))) \<and>
   normalized_text ''1 = 1'' = ''1=1'' \<and>
   where_conditions query_spaced_trivial_filter = [''1 = 1'', ''id = 42''] \<and>
   pushedFilters (from_table (rewrite insertion_sort query_spaced_trivial_filter)) =
     [''1 = 1'', ''id = 42''] \<and>
   where_conditions query_comma_join_spaced = [''1 = 1'', ''u . id = o . user_id''] \<and>
   where_conditions (rewrite insertion_sort query_comma_join_spaced) = [''1 = 1'']"
  by (simp add: rewrite_query_trivial_filter rewrite_query_spaced_trivial_filter
      rewrite_query_comma_join_spaced normalized_spaced)
     (simp add: query_trivial_filter_def query_spaced_trivial_filter_def
      query_comma_join_spaced_def select_star_def)

section \<open>Rewriting twice\<close>

subsection \<open>The captures of a match\<close>

lemma first_some_Some: "first_some rs = Some r \<Longrightarrow> Some r \<in> set rs"
  by (induction rs rule: first_some.induct) auto

lemma candidate_lengths_le: "k \<in> set (candidate_lengths q n) \<Longrightarrow> k \<le> n"
  by (cases q) (auto split: if_splits)

lemma take_in_run:
  assumes "k \<le> length (takeWhile P s)"
  shows "list_all P (take k s)"
proof -
  have "take k s = take k (takeWhile P s @ dropWhile P s)" by simp
  also have "\<dots> = take k (takeWhile P s)" using assms by (simp del: takeWhile_dropWhile_id)
  finally have "set (take k s) \<subseteq> set (takeWhile P s)" by (simp add: set_take_subset)
  then show ?thesis by (auto simp add: list_all_iff dest: set_takeWhileD)
qed

lemma match_atoms_captures: "match_atoms p s = Some caps \<Longrightarrow> captures_ok p caps"
proof (induction p arbitrary: s caps)
  case Nil
  then show ?case by (simp add: captures_ok_def)
next
  case (Cons a rest)
  obtain cl q cap where a: "a = (cl, q, cap)" by (cases a)
  let ?n = "length (takeWhile (in_class cl) s)"
  from Cons.prems a
  have "first_some (map (\<lambda>k. map_option (\<lambda>caps. if cap then take k s # caps else caps)
                                      (match_atoms rest (drop k s)))
                           (candidate_lengths q ?n)) = Some caps"
    by simp
  then have "Some caps \<in> set (map (\<lambda>k. map_option (\<lambda>caps. if cap then take k s # caps else caps)
                                      (match_atoms rest (drop k s)))
                           (candidate_lengths q ?n))"
    by (rule first_some_Some)
  then obtain k where k: "k \<in> set (candidate_lengths q ?n)"
    and m: "Some caps = map_option (\<lambda>caps. if cap then take k s # caps else caps)
              (match_atoms rest (drop k s))"
    by auto
  from m obtain caps' where r: "match_atoms rest (drop k s) = Some caps'"
    and c: "caps = (if cap then take k s # caps' else caps')"
    by (cases "match_atoms rest (drop k s)") auto
  have "list_all (in_class cl) (take k s)"
    using candidate_lengths_le [OF k] by (rule take_in_run)
  with Cons.IH [OF r] show ?case
    by (simp add: captures_ok_def a c)
qed

lemma regex_search_captures: "regex_search p s = Some caps \<Longrightarrow> captures_ok p caps"
  by (induction s) (auto dest: match_atoms_captures split: option.splits)

lemma generic_pattern_groups:
  "filter (\<lambda>a. snd (snd a)) generic_pattern = replicate 7 word_group"
  by (simp add: generic_pattern_def lits_def word_group_def spaces0_def spaces1_def
      numeral_eq_Suc)

lemma generic_captures:
  assumes "regex_search generic_pattern s = Some m" and "i < 7"
  shows "list_all is_word_char (m ! i)"
proof -
  have "list_all2 (\<lambda>a x. list_all (in_class (fst a)) x) (replicate 7 word_group) m"
    using regex_search_captures [OF assms(1)]
    by (simp add: captures_ok_def generic_pattern_groups)
  from list_all2_nthD [OF this, of i] assms(2) show ?thesis
    by (simp add: word_group_def list_all_iff)
qed

subsection \<open>Converting subqueries twice\<close>

lemma no_paren_no_select: "CHR ''('' \<notin> set s \<Longrightarrow> \<not> str_contains s ''(SELECT''"
  using str_contains_set [of s "''(SELECT''"] by auto

lemma word_no_paren: "list_all is_word_char x \<Longrightarrow> CHR ''('' \<notin> set x"
  by (auto simp add: list_all_iff is_word_char_def)

lemma convert_item_result:
  assumes "convert_item item = Some (ni, nj)"
  shows "convert_item ni = None"
proof -
  have "CHR ''('' \<notin> set (expr ni)"
  proof (cases "regex_search generic_pattern (expr item)")
    case None
    with assms show ?thesis
      by (auto simp add: convert_item_def split: if_splits)
  next
    case (Some m)
    have "CHR ''('' \<notin> set (m ! 2 @ ''.'' @ m ! 0)"
      using word_no_paren [OF generic_captures [OF Some, of 2]]
        word_no_paren [OF generic_captures [OF Some, of 0]]
      by simp
    with assms Some show ?thesis
      by (auto simp add: convert_item_def split: if_splits)
  qed
  from no_paren_no_select [OF this] show ?thesis
    by (simp add: convert_item_def)
qed

lemma subquery_loop_result:
  "subquery_loop items = (ns, js, made) \<Longrightarrow>
   (\<forall>i \<in> set ns. convert_item i = None) \<and> (made \<longleftrightarrow> js \<noteq> []) \<and>
   (\<not> made \<longrightarrow> ns = items)"
proof (induction items arbitrary: ns js made)
  case Nil
  then show ?case by simp
next
  case (Cons item items)
  obtain ns' js' made' where s: "subquery_loop items = (ns', js', made')"
    by (cases "subquery_loop items") auto
  note ih = Cons.IH [OF s]
  show ?case
  proof (cases "convert_item item")
    case None
    with Cons.prems s have "ns = item # ns'" "js = js'" "made = made'" by simp_all
    with ih None show ?thesis by simp
  next
    case (Some p)
    obtain ni nj where p: "p = (ni, nj)" by (cases p)
    with Cons.prems s Some have "ns = ni # ns'" "js = nj # js'" "made" by simp_all
    with ih convert_item_result [of item ni nj] Some p show ?thesis by simp
  qed
qed

lemma subquery_loop_fixed:
  "\<forall>i \<in> set items. convert_item i = None \<Longrightarrow> subquery_loop items = (items, [], False)"
  by (induction items) simp_all

lemma convertSubqueriesToJoins_idem:
  "convertSubqueriesToJoins (convertSubqueriesToJoins q) = convertSubqueriesToJoins q"
proof (cases "subquery_loop (select_items q)")
  case (fields ns js made)
  note r = subquery_loop_result [OF fields]
  show ?thesis
  proof (cases made)
    case True
    then have c: "convertSubqueriesToJoins q = q\<lparr>select_items := ns, joins := joins q @ js\<rparr>"
      using fields by (simp add: convertSubqueriesToJoins_def)
    have "subquery_loop ns = (ns, [], False)"
      using r by (simp add: subquery_loop_fixed)
    then show ?thesis
      by (simp add: c) (simp add: convertSubqueriesToJoins_def)
  next
    case False
    then have c: "convertSubqueriesToJoins q = q"
      using fields by (simp add: convertSubqueriesToJoins_def)
    then show ?thesis by simp
  qed
qed


lemma convertSubqueriesToJoins_items:
  "\<forall>i \<in> set (select_items (convertSubqueriesToJoins q)). convert_item i = None"
proof (cases "subquery_loop (select_items q)")
  case (fields ns js made)
  note r = subquery_loop_result [OF fields]
  show ?thesis
  proof (cases made)
    case True
    then have "select_items (convertSubqueriesToJoins q) = ns"
      using fields by (simp add: convertSubqueriesToJoins_def)
    with r show ?thesis by simp
  next
    case False
    then have "convertSubqueriesToJoins q = q" and "ns = select_items q"
      using fields r by (simp_all add: convertSubqueriesToJoins_def)
    with r show ?thesis by simp
  qed
qed

lemma convertSubqueriesToJoins_fixed:
  "\<forall>i \<in> set (select_items q). convert_item i = None \<Longrightarrow> convertSubqueriesToJoins q = q"
  by (simp add: convertSubqueriesToJoins_def subquery_loop_fixed)

lemma rewrite_select_items:
  "select_items (rewrite srt q) =
     select_items (convertSubqueriesToJoins (convertCommaJoins q))"
  by (simp add: rewrite_unfold reorderJoins_select_items pushdownPredicates_def)

text \<open>The second rewriting finds no subquery to convert.\<close>

lemma second_rewrite:
  "rewrite srt (rewrite srt q) =
     reorderJoins srt (pushdownPredicates (convertCommaJoins (rewrite srt q)))"
proof -
  let ?r = "rewrite srt q"
  have "\<forall>i \<in> set (select_items (convertCommaJoins ?r)). convert_item i = None"
    using convertSubqueriesToJoins_items [of "convertCommaJoins q"]
    by (simp add: convertCommaJoins_select_items rewrite_select_items)
  then have "convertSubqueriesToJoins (convertCommaJoins ?r) = convertCommaJoins ?r"
    by (rule convertSubqueriesToJoins_fixed)
  then show ?thesis by (simp add: rewrite_unfold [of srt ?r])
qed

subsection \<open>Rewriting twice, without joins\<close>

lemma convertCommaJoins_no_conditions:
  assumes "joins q = []" and "where_conditions q = []"
  shows "convertCommaJoins q = q"
proof -
  have "convert_loop (alias_or_name (from_table q)) (where_conditions q) [] (joins q) False
          = ([], False)"
    using assms by simp
  from convertCommaJoins_unfold [OF this] assms show ?thesis by simp
qed

lemma reorderJoins_no_joins: "joins q = [] \<Longrightarrow> reorderJoins srt q = q"
  by (simp add: reorderJoins_def)

lemma second_rewrite_no_joins:
  assumes "std_sort srt" and "joins (rewrite srt q) = []"
  shows "rewrite srt (rewrite srt q) =
           (rewrite srt q)\<lparr>from_table := (from_table (rewrite srt q))\<lparr>pushedFilters := []\<rparr>\<rparr>"
proof -
  let ?r = "rewrite srt q"
  note n = rewrite_no_joins [OF assms]
  have c: "convertCommaJoins ?r = ?r"
    using assms(2) n(3) by (rule convertCommaJoins_no_conditions)
  have "pushdownPredicates ?r = ?r\<lparr>from_table := (from_table ?r)\<lparr>pushedFilters := []\<rparr>\<rparr>"
    using assms(2) n(3) by (simp add: pushdownPredicates_def)
  then show ?thesis
    using assms(2) by (simp add: second_rewrite c reorderJoins_no_joins)
qed

lemma second_rewrite_no_joins_iff:
  assumes "std_sort srt" and "joins (rewrite srt q) = []"
  shows "rewrite srt (rewrite srt q) = rewrite srt q \<longleftrightarrow> where_conditions q = []"
proof
  let ?r = "rewrite srt q"
  assume "rewrite srt (rewrite srt q) = rewrite srt q"
  then have "?r\<lparr>from_table := (from_table ?r)\<lparr>pushedFilters := []\<rparr>\<rparr> = ?r"
    using second_rewrite_no_joins [OF assms] by simp
  then have "from_table (?r\<lparr>from_table := (from_table ?r)\<lparr>pushedFilters := []\<rparr>\<rparr>) =
             from_table ?r"
    by simp
  then have "(from_table ?r)\<lparr>pushedFilters := []\<rparr> = from_table ?r" by simp
  then have "pushedFilters ((from_table ?r)\<lparr>pushedFilters := []\<rparr>) =
             pushedFilters (from_table ?r)"
    by simp
  then have "pushedFilters (from_table ?r) = []" by simp
  then show "where_conditions q = []"
    using rewrite_no_joins(4) [OF assms] by simp
next
  assume "where_conditions q = []"
  then have "pushedFilters (from_table (rewrite srt q)) = []"
    using rewrite_no_joins(4) [OF assms] by simp
  then show "rewrite srt (rewrite srt q) = rewrite srt q"
    using second_rewrite_no_joins [OF assms] by simp
qed

subsection \<open>Rewriting twice, with joins\<close>

lemma convertCommaJoins_joined:
  assumes "joins q \<noteq> []"
  shows "joins (convertCommaJoins q) \<noteq> []"
    and "join_names (convertCommaJoins q) = join_names q"
proof -
  obtain js made
    where l: "convert_loop (alias_or_name (from_table q)) (where_conditions q) [] (joins q) False
                = (js, made)"
    by (cases "convert_loop (alias_or_name (from_table q)) (where_conditions q) [] (joins q)
                 False")
  have t: "map table js = map table (joins q)"
    using convert_loop_tables [of "alias_or_name (from_table q)" "where_conditions q" "[]"
        "joins q" False] l by simp
  then have n: "js \<noteq> []" using assms by auto
  then have c: "joins (convertCommaJoins q) = js"
    by (simp add: convertCommaJoins_unfold [OF l])
  show "joins (convertCommaJoins q) \<noteq> []" using c n by simp
  have "map name (map table js) = map name (map table (joins q))" using t by simp
  then show "join_names (convertCommaJoins q) = join_names q"
    by (simp add: join_names_def c comp_def)
qed

lemma rewrite_sorted: "std_sort srt \<Longrightarrow> sorted (join_names (rewrite srt q))"
  by (simp add: rewrite_def reorderJoins_sorted)

lemma reorderJoins_sorted_distinct:
  assumes "std_sort srt" and "sorted (join_names q)" and "distinct (join_names q)"
  shows "reorderJoins srt q = q"
  using std_sort_sorted_distinct [OF assms(1), of "joins q"] assms(2,3)
  by (simp add: reorderJoins_def join_names_def)

lemma second_rewrite_joins:
  assumes "std_sort srt" and "joins (rewrite srt q) \<noteq> []"
  shows "rewrite srt (rewrite srt q) = reorderJoins srt (convertCommaJoins (rewrite srt q))"
  using convertCommaJoins_joined(1) [OF assms(2)]
  by (simp add: second_rewrite pushdownPredicates_def)

lemma second_rewrite_distinct:
  assumes "std_sort srt" and "joins (rewrite srt q) \<noteq> []"
    and "distinct (join_names (rewrite srt q))"
  shows "rewrite srt (rewrite srt q) = convertCommaJoins (rewrite srt q)"
proof -
  have "reorderJoins srt (convertCommaJoins (rewrite srt q)) = convertCommaJoins (rewrite srt q)"
    using assms(3) rewrite_sorted [OF assms(1), of q]
    by (intro reorderJoins_sorted_distinct [OF assms(1)])
       (simp_all add: convertCommaJoins_joined(2) [OF assms(2)])
  then show ?thesis by (simp add: second_rewrite_joins [OF assms(1,2)])
qed

lemma convert_loop_settled:
  "\<forall>j \<in> set js. is_sentinel j \<longrightarrow> (\<forall>c \<in> set w. \<not> involves c (alias_or_name (table j))) \<Longrightarrow>
   convert_loop m w d js made = (d @ js, made)"
proof (induction js arbitrary: d)
  case Nil
  then show ?case by simp
next
  case (Cons j js)
  have "is_sentinel j \<Longrightarrow>
        comma_join_conditions m (map (alias_or_name \<circ> table) d) (alias_or_name (table j)) w = []"
    using Cons.prems by (auto simp add: comma_join_conditions_def filter_empty_conv)
  then show ?case using Cons by (simp add: Let_def)
qed

lemma convertCommaJoins_settled:
  assumes "joins q \<noteq> []" and "comma_joins_settled q"
  shows "convertCommaJoins q = q"
proof -
  have "convert_loop (alias_or_name (from_table q)) (where_conditions q) [] (joins q) False
          = ([] @ joins q, False)"
    using assms(2) by (intro convert_loop_settled) (auto simp add: comma_joins_settled_def)
  then have l: "convert_loop (alias_or_name (from_table q)) (where_conditions q) []
                  (joins q) False = (joins q, False)"
    by simp
  have "remaining_conditions (joins q) (where_conditions q) = where_conditions q"
    using assms(2) by (simp add: remaining_conditions_def comma_joins_settled_def)
  then show ?thesis
    using assms(1) by (simp add: convertCommaJoins_unfold [OF l])
qed

text \<open>
  C6, as the code has it: converting scalar subqueries to joins a second time changes
  nothing, but the whole rewriter is not idempotent. What follows holds for every sort
  that the library may have. When the rewritten query has no joins, rewriting it again
  changes only the pushed filters of the FROM table, which become empty; so the second
  rewriting gives the same query exactly when the query had no WHERE condition, and then
  the same SQL. When the rewritten query has joins, the second rewriting does what
  convertCommaJoins and reorderJoins do to it, and nothing else. convertCommaJoins leaves
  it as it is when no WHERE condition is left for it to move, and reorderJoins when the
  table names of the joins are distinct; with both, the second rewriting gives the same
  query and the same SQL.
\<close>

theorem rewrite_twice:
  "convertSubqueriesToJoins (convertSubqueriesToJoins q) = convertSubqueriesToJoins q \<and>
   (std_sort srt \<and> joins (rewrite srt q) = [] \<longrightarrow>
      rewrite srt (rewrite srt q) =
        (rewrite srt q)\<lparr>from_table := (from_table (rewrite srt q))\<lparr>pushedFilters := []\<rparr>\<rparr> \<and>
      (rewrite srt (rewrite srt q) = rewrite srt q \<longleftrightarrow> where_conditions q = [])) \<and>
   (std_sort srt \<and> joins (rewrite srt q) = [] \<and> where_conditions q = [] \<longrightarrow>
      rewrite srt (rewrite srt q) = rewrite srt q \<and>
      selectQueryToSQL (rewrite srt (rewrite srt q)) = selectQueryToSQL (rewrite srt q)) \<and>
   (std_sort srt \<and> joins (rewrite srt q) \<noteq> [] \<longrightarrow>
      rewrite srt (rewrite srt q) = reorderJoins srt (convertCommaJoins (rewrite srt q)) \<and>
      (comma_joins_settled (rewrite srt q) \<longrightarrow>
         convertCommaJoins (rewrite srt q) = rewrite srt q) \<and>
      (distinct (join_names (rewrite srt q)) \<longrightarrow>
         rewrite srt (rewrite srt q) = convertCommaJoins (rewrite srt q))) \<and>
   (std_sort srt \<and> joins (rewrite srt q) \<noteq> [] \<and> comma_joins_settled (rewrite srt q) \<and>
    distinct (join_names (rewrite srt q)) \<longrightarrow>
      rewrite srt (rewrite srt q) = rewrite srt q \<and>
      selectQueryToSQL (rewrite srt (rewrite srt q)) = selectQueryToSQL (rewrite srt q))"
proof (intro conjI impI)
  show "convertSubqueriesToJoins (convertSubqueriesToJoins q) = convertSubqueriesToJoins q"
    by (rule convertSubqueriesToJoins_idem)
next
  assume "std_sort srt \<and> joins (rewrite srt q) = []"
  then have a: "std_sort srt" "joins (rewrite srt q) = []" by simp_all
  show "rewrite srt (rewrite srt q) =
        (rewrite srt q)\<lparr>from_table := (from_table (rewrite srt q))\<lparr>pushedFilters := []\<rparr>\<rparr>"
    by (rule second_rewrite_no_joins [OF a])
  show "rewrite srt (rewrite srt q) = rewrite srt q \<longleftrightarrow> where_conditions q = []"
    by (rule second_rewrite_no_joins_iff [OF a])
next
  assume "std_sort srt \<and> joins (rewrite srt q) = [] \<and> where_conditions q = []"
  then have a: "std_sort srt" "joins (rewrite srt q) = []" and w: "where_conditions q = []"
    by simp_all
  show e: "rewrite srt (rewrite srt q) = rewrite srt q"
    using second_rewrite_no_joins_iff [OF a] w by simp
  show "selectQueryToSQL (rewrite srt (rewrite srt q)) = selectQueryToSQL (rewrite srt q)"
    by (simp add: e)
next
  assume "std_sort srt \<and> joins (rewrite srt q) \<noteq> []"
  then have a: "std_sort srt" "joins (rewrite srt q) \<noteq> []" by simp_all
  show "rewrite srt (rewrite srt q) = reorderJoins srt (convertCommaJoins (rewrite srt q))"
    by (rule second_rewrite_joins [OF a])
  show "convertCommaJoins (rewrite srt q) = rewrite srt q"
    if "comma_joins_settled (rewrite srt q)"
    using a(2) that by (rule convertCommaJoins_settled)
  show "rewrite srt (rewrite srt q) = convertCommaJoins (rewrite srt q)"
    if "distinct (join_names (rewrite srt q))"
    using a that by (rule second_rewrite_distinct)
next
  assume "std_sort srt \<and> joins (rewrite srt q) \<noteq> [] \<and> comma_joins_settled (rewrite srt q) \<and>
    distinct (join_names (rewrite srt q))"
  then have a: "std_sort srt" "joins (rewrite srt q) \<noteq> []"
    and s: "comma_joins_settled (rewrite srt q)"
    and d: "distinct (join_names (rewrite srt q))"
    by simp_all
  show e: "rewrite srt (rewrite srt q) = rewrite srt q"
    using second_rewrite_distinct [OF a d] convertCommaJoins_settled [OF a(2) s] by simp
  show "selectQueryToSQL (rewrite srt (rewrite srt q)) = selectQueryToSQL (rewrite srt q)"
    by (simp add: e)
qed

subsection \<open>The example queries, rewritten twice\<close>

lemma rewrite_query_id_filter:
  "rewrite insertion_sort query_id_filter =
     select_star \<lparr>name = ''users'', table_alias = [], pushedFilters = [''id = 42'']\<rparr> [] []"
  by code_simp

lemma rewrite_pushed_id_filter:
  "rewrite insertion_sort
     (select_star \<lparr>name = ''users'', table_alias = [], pushedFilters = [''id = 42'']\<rparr> [] [])
     = select_star (table_ref ''users'' []) [] []"
  by code_simp

lemma rewrite_query_no_filter: "rewrite insertion_sort query_no_filter = query_no_filter"
  by code_simp

lemma convert_query_scalar_subquery:
  "convertSubqueriesToJoins query_scalar_subquery =
     (select_star (table_ref ''orders'' ''o'')
        [\<lparr>type = LEFT, table = table_ref ''products'' ''p'',
          on_conds = [''o.product_id = p.id'']\<rparr>] [])
       \<lparr>select_items := [\<lparr>expr = ''p.name'', item_alias = ''pname''\<rparr>]\<rparr>"
  by code_simp

lemma settled_examples:
  "joins (rewrite insertion_sort query_comma_join) \<noteq> []"
  "comma_joins_settled (rewrite insertion_sort query_comma_join)"
  "distinct (join_names (rewrite insertion_sort query_comma_join))"
  "joins (rewrite insertion_sort query_two_left_joins) \<noteq> []"
  "comma_joins_settled (rewrite insertion_sort query_two_left_joins)"
  "distinct (join_names (rewrite insertion_sort query_two_left_joins))"
  by code_simp+

lemma rewrite_query_mixed_joins:
  "rewrite insertion_sort query_mixed_joins =
     select_star (table_ref ''t'' [])
       [\<lparr>type = INNER, table = table_ref ''a'' [], on_conds = [''t.k = a.k'']\<rparr>,
        \<lparr>type = INNER, table = table_ref ''c'' [], on_conds = [''1=1'']\<rparr>]
       [''c . x = a . x'']"
  by code_simp

lemma rewrite_rewritten_mixed_joins:
  "rewrite insertion_sort
     (select_star (table_ref ''t'' [])
       [\<lparr>type = INNER, table = table_ref ''a'' [], on_conds = [''t.k = a.k'']\<rparr>,
        \<lparr>type = INNER, table = table_ref ''c'' [], on_conds = [''1=1'']\<rparr>]
       [''c . x = a . x'']) =
     select_star (table_ref ''t'' [])
       [\<lparr>type = INNER, table = table_ref ''a'' [], on_conds = [''t.k = a.k'']\<rparr>,
        \<lparr>type = INNER, table = table_ref ''c'' [], on_conds = [''c . x = a . x'']\<rparr>]
       []"
  by code_simp

lemma mixed_joins_facts:
  "\<not> comma_joins_settled (rewrite insertion_sort query_mixed_joins)"
  "distinct (join_names (rewrite insertion_sort query_mixed_joins))"
  "selectQueryToSQL (rewrite insertion_sort query_mixed_joins) =
     ''SELECT * FROM t INNER JOIN a ON t.k = a.k INNER JOIN c ON 1=1 WHERE c . x = a . x''"
  "selectQueryToSQL (rewrite insertion_sort (rewrite insertion_sort query_mixed_joins)) =
     ''SELECT * FROM t INNER JOIN a ON t.k = a.k INNER JOIN c ON c . x = a . x''"
  by code_simp+

lemma id_filter_sql:
  "selectQueryToSQL (rewrite insertion_sort query_id_filter) =
     ''SELECT * FROM users WHERE id = 42''"
  "selectQueryToSQL (rewrite insertion_sort (rewrite insertion_sort query_id_filter)) =
     ''SELECT * FROM users''"
  by code_simp+

theorem rewrite_twice_witness:
  "convertSubqueriesToJoins query_scalar_subquery \<noteq> query_scalar_subquery \<and>
   convertSubqueriesToJoins (convertSubqueriesToJoins query_scalar_subquery) =
     convertSubqueriesToJoins query_scalar_subquery \<and>
   std_sort insertion_sort \<and>
   joins (rewrite insertion_sort query_id_filter) = [] \<and>
   rewrite insertion_sort (rewrite insertion_sort query_id_filter) =
     (rewrite insertion_sort query_id_filter)\<lparr>from_table := table_ref ''users'' []\<rparr> \<and>
   joins (rewrite insertion_sort query_no_filter) = [] \<and>
   where_conditions query_no_filter = [] \<and>
   rewrite insertion_sort (rewrite insertion_sort query_no_filter) =
     rewrite insertion_sort query_no_filter \<and>
   joins (rewrite insertion_sort query_comma_join) \<noteq> [] \<and>
   comma_joins_settled (rewrite insertion_sort query_comma_join) \<and>
   distinct (join_names (rewrite insertion_sort query_comma_join)) \<and>
   rewrite insertion_sort (rewrite insertion_sort query_comma_join) =
     rewrite insertion_sort query_comma_join \<and>
   joins (rewrite insertion_sort query_two_left_joins) \<noteq> [] \<and>
   comma_joins_settled (rewrite insertion_sort query_two_left_joins) \<and>
   distinct (join_names (rewrite insertion_sort query_two_left_joins)) \<and>
   rewrite insertion_sort (rewrite insertion_sort query_two_left_joins) =
     rewrite insertion_sort query_two_left_joins"
proof -
  note s = std_sort_insertion_sort
  have a: "convertSubqueriesToJoins query_scalar_subquery \<noteq> query_scalar_subquery"
    by (simp add: convert_query_scalar_subquery)
       (simp add: query_scalar_subquery_def select_star_def)
  have b: "convertSubqueriesToJoins (convertSubqueriesToJoins query_scalar_subquery) =
             convertSubqueriesToJoins query_scalar_subquery"
    using rewrite_twice [where q = query_scalar_subquery] by simp
  have j1: "joins (rewrite insertion_sort query_id_filter) = []"
    by (simp add: rewrite_query_id_filter select_star_def)
  have "rewrite insertion_sort (rewrite insertion_sort query_id_filter) =
          (rewrite insertion_sort query_id_filter)
            \<lparr>from_table := (from_table (rewrite insertion_sort query_id_filter))
               \<lparr>pushedFilters := []\<rparr>\<rparr>"
    using rewrite_twice [where srt = insertion_sort and q = query_id_filter] s j1 by blast
  then have c: "rewrite insertion_sort (rewrite insertion_sort query_id_filter) =
     (rewrite insertion_sort query_id_filter)\<lparr>from_table := table_ref ''users'' []\<rparr>"
    by (simp add: rewrite_query_id_filter select_star_def table_ref_def)
  have j2: "joins (rewrite insertion_sort query_no_filter) = []"
    and w2: "where_conditions query_no_filter = []"
    by (simp_all add: rewrite_query_no_filter) (simp_all add: query_no_filter_def select_star_def)
  have d: "rewrite insertion_sort (rewrite insertion_sort query_no_filter) =
             rewrite insertion_sort query_no_filter"
    using rewrite_twice [where srt = insertion_sort and q = query_no_filter] s j2 w2 by blast
  have e: "rewrite insertion_sort (rewrite insertion_sort query_comma_join) =
             rewrite insertion_sort query_comma_join"
    using rewrite_twice [where srt = insertion_sort and q = query_comma_join] s
      settled_examples(1-3) by blast
  have f: "rewrite insertion_sort (rewrite insertion_sort query_two_left_joins) =
             rewrite insertion_sort query_two_left_joins"
    using rewrite_twice [where srt = insertion_sort and q = query_two_left_joins] s
      settled_examples(4-6) by blast
  show ?thesis
    by (intro conjI a b s j1 c j2 w2 d e f settled_examples)
qed

text \<open>
  C6 as stated fails, without joins and with joins. The first rewriting of
  \<^verbatim>\<open>SELECT * FROM users WHERE id = 42\<close> pushes the condition to the scan of users,
  and the second one overwrites the pushed filters with the WHERE conditions, now empty;
  the SQL loses its WHERE clause. In
  \<^verbatim>\<open>SELECT * FROM t, c JOIN a ON t.k = a.k WHERE c.x = a.x\<close> the first rewriting
  finds no table before the comma join of c that the condition involves, and sorts the
  joins by name; the second one finds a before c and turns the condition into the ON
  condition of c. The table names differ, so every sort of the library gives this.
\<close>

theorem rewrite_twice_counterexample:
  "rewrite insertion_sort query_id_filter =
     select_star \<lparr>name = ''users'', table_alias = [], pushedFilters = [''id = 42'']\<rparr> [] [] \<and>
   rewrite insertion_sort (rewrite insertion_sort query_id_filter) =
     select_star (table_ref ''users'' []) [] [] \<and>
   rewrite insertion_sort (rewrite insertion_sort query_id_filter) \<noteq>
     rewrite insertion_sort query_id_filter \<and>
   selectQueryToSQL (rewrite insertion_sort query_id_filter) =
     ''SELECT * FROM users WHERE id = 42'' \<and>
   selectQueryToSQL (rewrite insertion_sort (rewrite insertion_sort query_id_filter)) =
     ''SELECT * FROM users'' \<and>
   map on_conds (joins (rewrite insertion_sort query_mixed_joins)) =
     [[''t.k = a.k''], [''1=1'']] \<and>
   where_conditions (rewrite insertion_sort query_mixed_joins) = [''c . x = a . x''] \<and>
   distinct (join_names (rewrite insertion_sort query_mixed_joins)) \<and>
   \<not> comma_joins_settled (rewrite insertion_sort query_mixed_joins) \<and>
   map on_conds (joins (rewrite insertion_sort (rewrite insertion_sort query_mixed_joins))) =
     [[''t.k = a.k''], [''c . x = a . x'']] \<and>
   where_conditions (rewrite insertion_sort (rewrite insertion_sort query_mixed_joins)) = [] \<and>
   rewrite insertion_sort (rewrite insertion_sort query_mixed_joins) \<noteq>
     rewrite insertion_sort query_mixed_joins \<and>
   selectQueryToSQL (rewrite insertion_sort query_mixed_joins) =
     ''SELECT * FROM t INNER JOIN a ON t.k = a.k INNER JOIN c ON 1=1 WHERE c . x = a . x'' \<and>
   selectQueryToSQL (rewrite insertion_sort (rewrite insertion_sort query_mixed_joins)) =
     ''SELECT * FROM t INNER JOIN a ON t.k = a.k INNER JOIN c ON c . x = a . x''"
proof -
  have a: "rewrite insertion_sort (rewrite insertion_sort query_id_filter) =
             select_star (table_ref ''users'' []) [] []"
    by (simp add: rewrite_query_id_filter rewrite_pushed_id_filter)
  have b: "rewrite insertion_sort (rewrite insertion_sort query_id_filter) \<noteq>
             rewrite insertion_sort query_id_filter"
    by (simp add: a) (simp add: rewrite_query_id_filter select_star_def table_ref_def)
  have c: "rewrite insertion_sort (rewrite insertion_sort query_mixed_joins) =
     select_star (table_ref ''t'' [])
       [\<lparr>type = INNER, table = table_ref ''a'' [], on_conds = [''t.k = a.k'']\<rparr>,
        \<lparr>type = INNER, table = table_ref ''c'' [], on_conds = [''c . x = a . x'']\<rparr>]
       []"
    by (simp add: rewrite_query_mixed_joins rewrite_rewritten_mixed_joins)
  have d: "rewrite insertion_sort (rewrite insertion_sort query_mixed_joins) \<noteq>
             rewrite insertion_sort query_mixed_joins"
    by (simp add: c) (simp add: rewrite_query_mixed_joins select_star_def)
  have e: "map on_conds (joins (rewrite insertion_sort query_mixed_joins)) =
             [[''t.k = a.k''], [''1=1'']]"
    "where_conditions (rewrite insertion_sort query_mixed_joins) = [''c . x = a . x'']"
    by (simp_all add: rewrite_query_mixed_joins select_star_def)
  have f: "map on_conds (joins (rewrite insertion_sort
                                   (rewrite insertion_sort query_mixed_joins))) =
             [[''t.k = a.k''], [''c . x = a . x'']]"
    "where_conditions (rewrite insertion_sort (rewrite insertion_sort query_mixed_joins)) = []"
    by (simp_all add: c) (simp_all add: select_star_def)
  show ?thesis
    by (intro conjI rewrite_query_id_filter a b id_filter_sql e f d mixed_joins_facts)
qed

end
